theory Spec2Isabelle
  imports Complex_Main "HOL-Library.Char_ord" "HOL-Library.List_Lexorder"
    "HOL-Library.Multiset"
begin

section \<open>Alert store of the SOC dashboard server\<close>

text \<open>
  The server keeps its alerts in one relational table and answers every request with a
  statement over that table. A statement is embedded as what it denotes on the list of
  the table's rows: \<open>WHERE\<close> is \<open>filter\<close>, \<open>COUNT( * )\<close> is \<open>length\<close>,
  \<open>LIMIT n OFFSET k\<close> is \<open>take n \<circ> drop k\<close>. Timestamps are whole seconds, the
  resolution of the \<open>TIMESTAMP\<close> columns and of \<open>NOW()\<close>.

  Two things a statement leaves to the database engine are inputs of the embedding.
  \<^item> \<open>ORDER BY\<close> fixes the order of rows with different keys only. The order in which
    the engine returns the rows is an argument of the function that embeds the
    statement, and the function has a value only for an order the \<open>ORDER BY\<close> allows.
  \<^item> The schema names no collation, so the engine compares texts under its default.
    Where the alert query compares a column with a text of the request, and where the
    overview groups the alerts by type, the collation is an argument. The texts of the
    five severities differ in length, so \<open>severity IN ('Critical', 'High')\<close> selects
    the same rows under every collation and is written with exact comparison, as are the
    comparisons among values the server writes itself.
\<close>

subsection \<open>The \<open>alerts\<close> table (\<open>createTables\<close>)\<close>

datatype severity = Critical | High | Medium | Low | Informational

datatype status = New | Assigned | InProgress | Resolved | FalsePositive

text \<open>The text of an \<open>ENUM\<close> member, as the schema spells it.\<close>

fun severity_text :: "severity \<Rightarrow> string" where
  "severity_text Critical = ''Critical''"
| "severity_text High = ''High''"
| "severity_text Medium = ''Medium''"
| "severity_text Low = ''Low''"
| "severity_text Informational = ''Informational''"

fun status_text :: "status \<Rightarrow> string" where
  "status_text New = ''New''"
| "status_text Assigned = ''Assigned''"
| "status_text InProgress = ''In Progress''"
| "status_text Resolved = ''Resolved''"
| "status_text FalsePositive = ''False Positive''"

text \<open>
  One row. A nullable column is an \<open>option\<close>. \<open>latitude\<close> and \<open>longitude\<close> are
  \<open>DECIMAL\<close> columns with eight decimals, kept as the integer number of 1e-8 degrees.
  \<open>raw_event\<close> is the stored JSON text.
\<close>

record alert =
  alert_id :: nat
  alert_type :: string
  severity :: severity
  source_ip :: "string option"
  destination_ip :: "string option"
  source_port :: "int option"
  destination_port :: "int option"
  protocol :: "string option"
  description :: "string option"
  raw_event :: "string option"
  status :: status
  created_at :: int
  updated_at :: int
  resolved_at :: "int option"
  assigned_to :: "nat option"
  country_code :: "string option"
  city :: "string option"
  latitude :: "int option"
  longitude :: "int option"

subsection \<open>Threat level (\<open>GET /api/dashboard/overview\<close>)\<close>

datatype threat_level = Green | Yellow | Red

text \<open>
  \<open>SELECT COUNT( * ) FROM alerts WHERE severity IN ('Critical', 'High')
  AND created_at >= DATE_SUB(NOW(), INTERVAL 1 HOUR)\<close>
\<close>

definition criticalAlerts :: "int \<Rightarrow> alert list \<Rightarrow> nat" where
  "criticalAlerts now tbl =
     length (filter (\<lambda>a. severity_text (severity a) \<in> set [''Critical'', ''High'']
                          \<and> created_at a \<ge> now - 3600) tbl)"

definition threatLevel :: "int \<Rightarrow> alert list \<Rightarrow> threat_level" where
  "threatLevel now tbl =
     (if criticalAlerts now tbl > 10 then Red
      else if criticalAlerts now tbl > 5 then Yellow
      else Green)"

subsection \<open>Request parameters\<close>

text \<open>
  A query-string parameter is a string or absent (\<open>undefined\<close>). The handler tests a
  parameter with \<open>if (p)\<close>: an absent parameter and the empty string are both falsy.
\<close>

definition truthy :: "string option \<Rightarrow> bool" where
  "truthy p = (case p of None \<Rightarrow> False | Some s \<Rightarrow> s \<noteq> [])"

text \<open>
  \<open>parseInt(s)\<close> with no radix: leading white space is skipped, one sign is read, a
  \<open>0x\<close> prefix selects radix 16, and the longest run of digits is the value; no digit
  gives \<open>NaN\<close>, here \<open>None\<close>. The value is the exact integer, which is what
  JavaScript gives up to \<open>2^53\<close> in size (beyond, it rounds to a double). Characters
  are bytes, and the white space skipped is the ASCII one.
\<close>

definition js_whitespace :: "char \<Rightarrow> bool" where
  "js_whitespace c = (c \<in> set [CHR 0x09, CHR 0x0A, CHR 0x0B, CHR 0x0C, CHR 0x0D, CHR 0x20])"

definition radix_digit :: "nat \<Rightarrow> char \<Rightarrow> nat option" where
  "radix_digit r c =
     (let n = (of_char c :: nat);
          v = (if 48 \<le> n \<and> n \<le> 57 then Some (n - 48)
               else if 97 \<le> n \<and> n \<le> 122 then Some (n - 87)
               else if 65 \<le> n \<and> n \<le> 90 then Some (n - 55)
               else None)
      in case v of None \<Rightarrow> None | Some d \<Rightarrow> if d < r then Some d else None)"

fun digits_value :: "nat \<Rightarrow> nat \<Rightarrow> string \<Rightarrow> nat" where
  "digits_value r acc [] = acc"
| "digits_value r acc (c # cs) =
     (case radix_digit r c of
        None \<Rightarrow> acc
      | Some d \<Rightarrow> digits_value r (acc * r + d) cs)"

definition parseInt :: "string \<Rightarrow> int option" where
  "parseInt inputString =
     (let s = dropWhile js_whitespace inputString;
          sign = (if take 1 s = ''-'' then - 1 else (1::int));
          s = (if take 1 s = ''+'' \<or> take 1 s = ''-'' then drop 1 s else s);
          hex = (take 2 s = ''0x'' \<or> take 2 s = ''0X'');
          r = (if hex then 16 else 10);
          s = (if hex then drop 2 s else s)
      in case s of
           [] \<Rightarrow> None
         | c # _ \<Rightarrow>
             (case radix_digit r c of
                None \<Rightarrow> None
              | Some _ \<Rightarrow> Some (sign * int (digits_value r 0 s))))"

text \<open>A parameter with a numeric default, \<open>const { page = 1, limit = 50 } = req.query\<close>.\<close>

definition parseInt_default :: "int \<Rightarrow> string option \<Rightarrow> int option" where
  "parseInt_default d p = (case p of None \<Rightarrow> Some d | Some s \<Rightarrow> parseInt s)"

subsection \<open>Collation\<close>

text \<open>
  A collation is embedded as the weight it gives each character: two texts compare equal
  when they have the same weights, character by character. Under the binary collation
  every character has a weight of its own; a collation that ignores case gives a letter
  and its capital one weight.
\<close>

type_synonym collation = "char \<Rightarrow> nat"

definition weights :: "collation \<Rightarrow> string \<Rightarrow> nat list" where
  "weights coll s = map coll s"

definition binary :: collation where
  "binary c = of_char c"

definition ascii_ci :: collation where
  "ascii_ci c = (let n = of_char c in if 65 \<le> n \<and> n \<le> 90 then n + 32 else n)"

subsection \<open>\<open>LIKE\<close>\<close>

text \<open>
  \<open>subject LIKE pattern\<close>: \<open>%\<close> matches any run of characters, \<open>_\<close> any one
  character, and a backslash takes the next pattern character literally. A literal
  pattern character matches a character of the same weight.
\<close>

fun sql_like :: "collation \<Rightarrow> string \<Rightarrow> string \<Rightarrow> bool" where
  "sql_like coll s [] = (s = [])"
| "sql_like coll s (p # ps) =
     (if p = CHR ''%'' then
        sql_like coll s ps \<or> (case s of [] \<Rightarrow> False | _ # s' \<Rightarrow> sql_like coll s' (p # ps))
      else if p = CHR ''_'' then
        (case s of [] \<Rightarrow> False | _ # s' \<Rightarrow> sql_like coll s' ps)
      else if p = CHR 0x5C then
        (case ps of
           [] \<Rightarrow> (case s of [] \<Rightarrow> False | c # s' \<Rightarrow> coll c = coll p \<and> s' = [])
         | q # qs \<Rightarrow>
             (case s of [] \<Rightarrow> False | c # s' \<Rightarrow> coll c = coll q \<and> sql_like coll s' qs))
      else
        (case s of [] \<Rightarrow> False | c # s' \<Rightarrow> coll c = coll p \<and> sql_like coll s' ps))"

text \<open>A \<open>LIKE\<close> on a nullable column is not true on \<open>NULL\<close>.\<close>

definition like_opt :: "collation \<Rightarrow> string option \<Rightarrow> string \<Rightarrow> bool" where
  "like_opt coll col pat = (case col of None \<Rightarrow> False | Some s \<Rightarrow> sql_like coll s pat)"

text \<open>A text in which \<open>LIKE\<close> reads no character as syntax.\<close>

definition wildcard_free :: "string \<Rightarrow> bool" where
  "wildcard_free s = list_all (\<lambda>c. c \<noteq> CHR ''%'' \<and> c \<noteq> CHR ''_'' \<and> c \<noteq> CHR 0x5C) s"

subsection \<open>Alert query (\<open>GET /api/alerts\<close>)\<close>

record alerts_query =
  q_page :: "string option"
  q_limit :: "string option"
  q_severity :: "string option"
  q_status :: "string option"
  q_alertType :: "string option"
  q_sourceIp :: "string option"
  q_destinationIp :: "string option"
  q_timeRange :: "string option"
  q_search :: "string option"

text \<open>
  The handler appends one \<open>AND ...\<close> fragment to both statement texts and pushes the
  fragment's arguments on \<open>params\<close>. A fragment with its arguments is a \<open>condition\<close>.
\<close>

datatype condition =
    Severity_eq string
  | Status_eq string
  | Alert_type_eq string
  | Source_ip_like string
  | Destination_ip_like string
  | Created_within "int option"
  | Search_like string string string

definition where_conditions :: "alerts_query \<Rightarrow> condition list" where
  "where_conditions q =
     (if truthy (q_severity q) then [Severity_eq (the (q_severity q))] else []) @
     (if truthy (q_status q) then [Status_eq (the (q_status q))] else []) @
     (if truthy (q_alertType q) then [Alert_type_eq (the (q_alertType q))] else []) @
     (if truthy (q_sourceIp q) then [Source_ip_like (''%'' @ the (q_sourceIp q) @ ''%'')] else []) @
     (if truthy (q_destinationIp q)
      then [Destination_ip_like (''%'' @ the (q_destinationIp q) @ ''%'')] else []) @
     (if truthy (q_timeRange q) then [Created_within (parseInt (the (q_timeRange q)))] else []) @
     (if truthy (q_search q)
      then [Search_like (''%'' @ the (q_search q) @ ''%'') (''%'' @ the (q_search q) @ ''%'')
                        (''%'' @ the (q_search q) @ ''%'')]
      else [])"

text \<open>
  One fragment on one row at time \<open>now\<close>, under a collation. The time fragment is
  \<open>created_at >= DATE_SUB(NOW(), INTERVAL ? HOUR)\<close>; a \<open>timeRange\<close> that \<open>parseInt\<close>
  cannot read is bound as \<open>NaN\<close>, from which no interval is computed, and the
  comparison is then true of no row.
\<close>

fun holds :: "collation \<Rightarrow> int \<Rightarrow> alert \<Rightarrow> condition \<Rightarrow> bool" where
  "holds coll now a (Severity_eq v) = (weights coll (severity_text (severity a)) = weights coll v)"
| "holds coll now a (Status_eq v) = (weights coll (status_text (status a)) = weights coll v)"
| "holds coll now a (Alert_type_eq v) = (weights coll (alert_type a) = weights coll v)"
| "holds coll now a (Source_ip_like p) = like_opt coll (source_ip a) p"
| "holds coll now a (Destination_ip_like p) = like_opt coll (destination_ip a) p"
| "holds coll now a (Created_within None) = False"
| "holds coll now a (Created_within (Some h)) = (created_at a \<ge> now - h * 3600)"
| "holds coll now a (Search_like p1 p2 p3) =
     (sql_like coll (alert_type a) p1 \<or> like_opt coll (description a) p2
      \<or> like_opt coll (source_ip a) p3)"

text \<open>The rows of \<open>... FROM alerts WHERE 1=1 AND c1 AND c2 ...\<close>.\<close>

definition select_where :: "collation \<Rightarrow> int \<Rightarrow> condition list \<Rightarrow> alert list \<Rightarrow> alert list" where
  "select_where coll now conds tbl = filter (\<lambda>a. list_all (holds coll now a) conds) tbl"

text \<open>
  \<open>ORDER BY created_at DESC\<close> has one key. The engine may return the selected rows in
  any order \<open>ord\<close> that holds each of them once and in which \<open>created_at\<close> never
  increases; among rows with one \<open>created_at\<close> the order is the engine's.
\<close>

definition order_by_created_at_desc :: "alert list \<Rightarrow> alert list \<Rightarrow> bool" where
  "order_by_created_at_desc rows ord =
     (mset ord = mset rows \<and> sorted_wrt (\<lambda>a b. created_at a \<ge> created_at b) ord)"

text \<open>
  \<open>Math.ceil(total / limit)\<close> is a JavaScript number: \<open>Infinity\<close> or \<open>NaN\<close> when
  \<open>limit\<close> is 0. The quotient of a row count by a positive integer is rounded up
  exactly.
\<close>

datatype js_number = Num int | PosInfinity | NaN

definition ceil_div :: "nat \<Rightarrow> int \<Rightarrow> js_number" where
  "ceil_div n lmt =
     (if lmt = 0 then (if n = 0 then NaN else PosInfinity)
      else Num (- ((- int n) div lmt)))"

record pagination =
  page :: int
  limit :: int
  total :: nat
  pages :: js_number

record alerts_response =
  alerts :: "alert list"
  pagination :: pagination

datatype http_error = Internal_server_error

text \<open>
  The handler, given the order \<open>ord\<close> in which the engine sorts the selected rows. The
  count statement runs first, then the row statement with
  \<open>ORDER BY created_at DESC LIMIT ? OFFSET ?\<close> bound to \<open>parseInt(limit)\<close> and
  \<open>(parseInt(page) - 1) * parseInt(limit)\<close>. The engine rejects a \<open>LIMIT\<close> or
  \<open>OFFSET\<close> that is \<open>NaN\<close> or negative; the handler's \<open>catch\<close> then answers 500.
  The value is \<open>None\<close> when \<open>ord\<close> is not an order the \<open>ORDER BY\<close> allows: the
  answers the handler can give are the values \<open>Some out\<close>, over all \<open>ord\<close>.
\<close>

definition get_alerts ::
  "collation \<Rightarrow> int \<Rightarrow> alert list \<Rightarrow> alerts_query \<Rightarrow> alert list
     \<Rightarrow> (http_error + alerts_response) option" where
  "get_alerts coll now tbl q ord =
     (let conds = where_conditions q;
          count = length (select_where coll now conds tbl)
      in case (parseInt_default 50 (q_limit q), parseInt_default 1 (q_page q)) of
           (Some lmt, Some pg) \<Rightarrow>
             (let off = (pg - 1) * lmt in
              if lmt < 0 \<or> off < 0 then Some (Inl Internal_server_error)
              else if order_by_created_at_desc (select_where coll now conds tbl) ord
              then Some (Inr \<lparr> alerts = take (nat lmt) (drop (nat off) ord),
                               pagination = \<lparr> page = pg, limit = lmt, total = count,
                                               pages = ceil_div count lmt \<rparr> \<rparr>)
              else None)
         | _ \<Rightarrow> Some (Inl Internal_server_error))"

subsection \<open>Grouping\<close>

text \<open>
  \<open>GROUP BY key\<close>: one group per distinct key, holding the rows of that key. SQL fixes
  no order of the groups. The list has them by first occurrence; no property stated
  below depends on that order.
\<close>

definition group_by :: "('a \<Rightarrow> 'k) \<Rightarrow> 'a list \<Rightarrow> ('k \<times> 'a list) list" where
  "group_by key rows =
     map (\<lambda>k. (k, filter (\<lambda>a. key a = k) rows)) (rev (remdups (rev (map key rows))))"

subsection \<open>Top alert types (\<open>GET /api/dashboard/overview\<close>)\<close>

text \<open>
  \<open>SELECT alert_type, COUNT( * ) as count FROM alerts
  WHERE created_at >= DATE_SUB(NOW(), INTERVAL 7 DAY)
  GROUP BY alert_type ORDER BY count DESC LIMIT 5\<close>.

  The groups are the alert types of the last seven days up to the collation: the key of
  a group is the weights of its type, and \<open>alert_type_counts\<close> pairs each key with the
  number of its rows.
\<close>

definition alert_type_counts :: "collation \<Rightarrow> int \<Rightarrow> alert list \<Rightarrow> (nat list \<times> nat) list" where
  "alert_type_counts coll now tbl =
     map (\<lambda>(k, g). (k, length g))
       (group_by (\<lambda>a. weights coll (alert_type a))
          (filter (\<lambda>a. created_at a \<ge> now - 7 * 24 * 3600) tbl))"

text \<open>
  A result row is the pair of \<open>alert_type\<close> and \<open>count\<close>. The engine may return the
  groups in any order \<open>ord\<close> that holds each group once, shown with the type of one of
  its rows, and in which \<open>count\<close> never increases; among groups with one \<open>count\<close> the
  order is the engine's. \<open>LIMIT 5\<close> keeps the first five. As for the alert query, the
  value is \<open>None\<close> when \<open>ord\<close> is not such an order.
\<close>

definition topAlertTypes ::
  "collation \<Rightarrow> int \<Rightarrow> alert list \<Rightarrow> (string \<times> nat) list \<Rightarrow> (string \<times> nat) list option" where
  "topAlertTypes coll now tbl ord =
     (if mset (map (\<lambda>(t, c). (weights coll t, c)) ord) = mset (alert_type_counts coll now tbl)
         \<and> list_all (\<lambda>(t, c). t \<in> set (map alert_type
               (filter (\<lambda>a. created_at a \<ge> now - 7 * 24 * 3600) tbl))) ord
         \<and> sorted_wrt (\<lambda>r s. snd r \<ge> snd s) ord
      then Some (take 5 ord)
      else None)"

subsection \<open>Geographic threats (\<open>GET /api/threats/geographic\<close>)\<close>

text \<open>
  \<open>SELECT country_code, city, latitude, longitude, COUNT( * ) as alert_count,
  MAX(severity) as max_severity, MAX(created_at) as latest_alert FROM alerts
  WHERE latitude IS NOT NULL AND longitude IS NOT NULL
  AND created_at >= DATE_SUB(NOW(), INTERVAL 24 HOUR)
  GROUP BY country_code, city, latitude, longitude\<close>.

  \<open>severity\<close> is an \<open>ENUM\<close> column. \<open>MAX\<close> compares the members of an \<open>ENUM\<close> column
  by their text, not by their position in the declaration; \<open>severity_index\<close> is that
  position.
\<close>

fun severity_index :: "severity \<Rightarrow> nat" where
  "severity_index Critical = 1"
| "severity_index High = 2"
| "severity_index Medium = 3"
| "severity_index Low = 4"
| "severity_index Informational = 5"

type_synonym geo_key = "string option \<times> string option \<times> int option \<times> int option"

record geo_cluster =
  location :: geo_key
  alert_count :: nat
  max_severity :: string
  latest_alert :: int

definition geo_key_of :: "alert \<Rightarrow> geo_key" where
  "geo_key_of a = (country_code a, city a, latitude a, longitude a)"

fun geo_aggregate :: "geo_key \<times> alert list \<Rightarrow> geo_cluster option" where
  "geo_aggregate (k, []) = None"
| "geo_aggregate (k, a # as) =
     Some \<lparr> location = k,
            alert_count = length (a # as),
            max_severity = fold max (map (\<lambda>b. severity_text (severity b)) as)
                                    (severity_text (severity a)),
            latest_alert = fold max (map created_at as) (created_at a) \<rparr>"

definition geographic :: "int \<Rightarrow> alert list \<Rightarrow> geo_cluster list" where
  "geographic now tbl =
     List.map_filter geo_aggregate
       (group_by geo_key_of
         (filter (\<lambda>a. latitude a \<noteq> None \<and> longitude a \<noteq> None
                      \<and> created_at a \<ge> now - 24 * 3600) tbl))"

subsection \<open>Inserting alerts\<close>

text \<open>
  \<open>id INT AUTO_INCREMENT PRIMARY KEY\<close>: the server deletes no row, so the next id is
  one more than the largest id in the table. A new row goes to the end of the scan.
\<close>

definition next_id :: "alert list \<Rightarrow> nat" where
  "next_id tbl = Suc (fold max (map alert_id tbl) 0)"

text \<open>
  \<open>Math.floor(Math.random() * xs.length)\<close> is some index of \<open>xs\<close>. The random
  numbers are an input: a natural number \<open>k\<close> stands for the index \<open>k mod length xs\<close>.
\<close>

definition pick :: "'a list \<Rightarrow> nat \<Rightarrow> 'a" where
  "pick xs k = xs ! (k mod length xs)"

fun show_nat :: "nat \<Rightarrow> string" where
  "show_nat n =
     (if n < 10 then [char_of (48 + n)]
      else show_nat (n div 10) @ [char_of (48 + n mod 10)])"

text \<open>
  An octet of a generated address is \<open>Math.floor(Math.random() * 255)\<close>, a number
  below 255; the template string joins the decimal octets with dots.
\<close>

definition octet :: "nat \<Rightarrow> string" where
  "octet k = show_nat (k mod 255)"

record geo_location =
  country :: string
  loc_city :: string
  lat :: int
  lng :: int

definition alertTypes :: "string list" where
  "alertTypes =
     [''Brute Force Attack'', ''SQL Injection'', ''Cross-Site Scripting'', ''Port Scan'',
      ''Malware Detection'', ''Suspicious Network Traffic'', ''Failed Login'',
      ''Data Exfiltration'', ''Privilege Escalation'', ''DNS Tunneling'',
      ''Command Injection'', ''File Integrity Violation'']"

definition severities :: "severity list" where
  "severities = [Critical, High, Medium, Low, Informational]"

definition statuses :: "status list" where
  "statuses = [New, Assigned, InProgress, Resolved, FalsePositive]"

definition locations :: "geo_location list" where
  "locations =
     [\<lparr> country = ''CN'', loc_city = ''Beijing'', lat = 3990420000, lng = 11640740000 \<rparr>,
      \<lparr> country = ''RU'', loc_city = ''Moscow'', lat = 5575580000, lng = 3761760000 \<rparr>,
      \<lparr> country = ''US'', loc_city = ''New York'', lat = 4071280000, lng = - 7400600000 \<rparr>,
      \<lparr> country = ''BR'', loc_city = CHR ''S'' # CHR 0xC3 # CHR 0xA3 # ''o Paulo'',
         lat = - 2355050000, lng = - 4663330000 \<rparr>,
      \<lparr> country = ''IN'', loc_city = ''Mumbai'', lat = 1907600000, lng = 7287770000 \<rparr>,
      \<lparr> country = ''DE'', loc_city = ''Berlin'', lat = 5252000000, lng = 1340500000 \<rparr>,
      \<lparr> country = ''FR'', loc_city = ''Paris'', lat = 4885660000, lng = 235220000 \<rparr>,
      \<lparr> country = ''KR'', loc_city = ''Seoul'', lat = 3756650000, lng = 12697800000 \<rparr>]"

text \<open>
  The random numbers one iteration of \<open>generateSampleSecurityData\<close> draws, in the order
  it draws them; \<open>r_age\<close> is the age of the alert in seconds (up to 30 days) and
  \<open>r_rawEvent\<close> the JSON text of \<open>rawEvent\<close>, which renders the clock.
\<close>

record sample_draw =
  r_alertType :: nat
  r_severity :: nat
  r_status :: nat
  r_location :: nat
  r_sourceIP :: "nat \<times> nat \<times> nat \<times> nat"
  r_destIP :: "nat \<times> nat"
  r_age :: nat
  r_sourcePort :: nat
  r_destinationPort :: nat
  r_protocol :: nat
  r_rawEvent :: string

text \<open>
  The row of \<open>INSERT INTO alerts (alert_type, severity, source_ip, destination_ip,
  source_port, destination_port, protocol, description, raw_event, status, created_at,
  country_code, city, latitude, longitude) VALUES (...)\<close>. The columns the statement
  does not name take their defaults: \<open>updated_at\<close> the current time, \<open>resolved_at\<close>
  and \<open>assigned_to\<close> \<open>NULL\<close>.
\<close>

definition sample_alert :: "int \<Rightarrow> alert list \<Rightarrow> sample_draw \<Rightarrow> alert" where
  "sample_alert now tbl d =
     (let alertType = pick alertTypes (r_alertType d);
          location = pick locations (r_location d);
          sourceIP = (case r_sourceIP d of (a, b, c, e) \<Rightarrow>
                        octet a @ ''.'' @ octet b @ ''.'' @ octet c @ ''.'' @ octet e);
          destIP = (case r_destIP d of (a, b) \<Rightarrow> ''192.168.'' @ octet a @ ''.'' @ octet b)
      in \<lparr> alert_id = next_id tbl,
           alert_type = alertType,
           severity = pick severities (r_severity d),
           source_ip = Some sourceIP,
           destination_ip = Some destIP,
           source_port = Some (int (r_sourcePort d mod 65535)),
           destination_port = Some (int (r_destinationPort d mod 65535)),
           protocol = Some (pick [''TCP'', ''UDP'', ''ICMP''] (r_protocol d)),
           description = Some (alertType @ '' detected from '' @ sourceIP),
           raw_event = Some (r_rawEvent d),
           status = pick statuses (r_status d),
           created_at = now - int (r_age d mod (30 * 24 * 60 * 60 + 1)),
           updated_at = now,
           resolved_at = None,
           assigned_to = None,
           country_code = Some (country location),
           city = Some (loc_city location),
           latitude = Some (lat location),
           longitude = Some (lng location) \<rparr>)"

text \<open>
  The alert part of \<open>generateSampleSecurityData\<close>: when the table has fewer than 100
  rows, 150 iterations insert one row each; \<open>draws i\<close> are the random numbers of
  iteration \<open>i\<close>.
\<close>

definition generateSampleSecurityData :: "int \<Rightarrow> (nat \<Rightarrow> sample_draw) \<Rightarrow> alert list \<Rightarrow> alert list" where
  "generateSampleSecurityData now draws tbl =
     (if length tbl < 100
      then fold (\<lambda>i t. t @ [sample_alert now t (draws i)]) [0..<150] tbl
      else tbl)"

subsection \<open>Live channel (\<open>io.on('connection')\<close>, \<open>simulateRealTimeAlerts\<close>)\<close>

text \<open>
  The socket registry of the \<open>socket.io\<close> server: the connected sockets by id. For each
  socket the embedding keeps the rooms it joined and the events the server has emitted
  to it, oldest first. An event is its name and its payload; the payload is a row, or
  \<open>undefined\<close> (\<open>None\<close>).
\<close>

record socket =
  rooms :: "string list"
  received :: "(string \<times> alert option) list"

type_synonym registry = "nat \<rightharpoonup> socket"

definition connection :: "nat \<Rightarrow> registry \<Rightarrow> registry" where
  "connection sid reg = reg(sid \<mapsto> \<lparr> rooms = [], received = [] \<rparr>)"

text \<open>\<open>socket.on('join-role', (role) => { socket.join(role); })\<close>\<close>

definition join_role :: "nat \<Rightarrow> string \<Rightarrow> registry \<Rightarrow> registry" where
  "join_role sid role reg =
     (case reg sid of
        None \<Rightarrow> reg
      | Some s \<Rightarrow> reg(sid \<mapsto> s\<lparr> rooms := List.insert role (rooms s) \<rparr>))"

definition disconnect :: "nat \<Rightarrow> registry \<Rightarrow> registry" where
  "disconnect sid reg = reg(sid := None)"

text \<open>\<open>io.emit(ev, payload)\<close> emits to every connected socket.\<close>

definition io_emit :: "string \<Rightarrow> alert option \<Rightarrow> registry \<Rightarrow> registry" where
  "io_emit ev payload reg =
     (\<lambda>sid. map_option (\<lambda>s. s\<lparr> received := received s @ [(ev, payload)] \<rparr>) (reg sid))"

text \<open>
  The random numbers of one run of the interval handler; \<open>t_fire\<close> is the outcome of
  \<open>Math.random() < 0.3\<close>.
\<close>

record tick_draw =
  t_fire :: bool
  t_alertType :: nat
  t_severity :: nat
  t_location :: nat
  t_sourceIP :: "nat \<times> nat \<times> nat \<times> nat"

record server =
  db_alerts :: "alert list"
  io :: registry

text \<open>
  \<open>INSERT INTO alerts (alert_type, severity, source_ip, destination_ip, description,
  country_code, city, latitude, longitude, status) VALUES (..., 'New')\<close>; the other
  columns take their defaults, \<open>created_at\<close> and \<open>updated_at\<close> the current time.
\<close>

definition realtime_alert :: "int \<Rightarrow> alert list \<Rightarrow> tick_draw \<Rightarrow> alert" where
  "realtime_alert now tbl d =
     (let alertType = pick [''Port Scan'', ''Failed Login'', ''Suspicious Network Traffic'',
                            ''Malware Detection''] (t_alertType d);
          location = pick (take 3 locations) (t_location d);
          sourceIP = (case t_sourceIP d of (a, b, c, e) \<Rightarrow>
                        octet a @ ''.'' @ octet b @ ''.'' @ octet c @ ''.'' @ octet e)
      in \<lparr> alert_id = next_id tbl,
           alert_type = alertType,
           severity = pick severities (t_severity d),
           source_ip = Some sourceIP,
           destination_ip = Some ''192.168.1.100'',
           source_port = None,
           destination_port = None,
           protocol = None,
           description = Some (''Real-time '' @ alertType @ '' detected from '' @ sourceIP),
           raw_event = None,
           status = New,
           created_at = now,
           updated_at = now,
           resolved_at = None,
           assigned_to = None,
           country_code = Some (country location),
           city = Some (loc_city location),
           latitude = Some (lat location),
           longitude = Some (lng location) \<rparr>)"

text \<open>
  One run of the interval handler: insert, read the row back with
  \<open>SELECT * FROM alerts WHERE id = ?\<close> (\<open>newAlert[0]\<close> is \<open>undefined\<close> when no row
  comes back), and \<open>io.emit('new-alert', newAlert[0])\<close>.
\<close>

definition simulateRealTimeAlerts :: "int \<Rightarrow> tick_draw \<Rightarrow> server \<Rightarrow> server" where
  "simulateRealTimeAlerts now d srv =
     (if t_fire d then
        (let row = realtime_alert now (db_alerts srv) d;
             tbl = db_alerts srv @ [row];
             newAlert = filter (\<lambda>a. alert_id a = alert_id row) tbl
         in \<lparr> db_alerts = tbl,
              io = io_emit ''new-alert'' (case newAlert of [] \<Rightarrow> None | a # _ \<Rightarrow> Some a)
                     (io srv) \<rparr>)
      else srv)"

text \<open>What happens to the running server, one event at a time.\<close>

datatype event =
    Connection nat
  | Join_role nat string
  | Disconnect nat
  | Tick int tick_draw

fun step :: "event \<Rightarrow> server \<Rightarrow> server" where
  "step (Connection sid) srv = srv\<lparr> io := connection sid (io srv) \<rparr>"
| "step (Join_role sid role) srv = srv\<lparr> io := join_role sid role (io srv) \<rparr>"
| "step (Disconnect sid) srv = srv\<lparr> io := disconnect sid (io srv) \<rparr>"
| "step (Tick now d) srv = simulateRealTimeAlerts now d srv"

text \<open>An event publishes an alert when it is a run of the handler whose draw fires.\<close>

definition publishes :: "event \<Rightarrow> bool" where
  "publishes e = (case e of Tick now d \<Rightarrow> t_fire d | _ \<Rightarrow> False)"

subsection \<open>Example rows and requests\<close>

definition example_alert :: "nat \<Rightarrow> string \<Rightarrow> severity \<Rightarrow> status \<Rightarrow> int \<Rightarrow> alert" where
  "example_alert i ty sev st t =
     \<lparr> alert_id = i, alert_type = ty, severity = sev,
       source_ip = Some ''10.0.0.1'', destination_ip = Some ''192.168.1.100'',
       source_port = None, destination_port = None, protocol = None,
       description = Some (ty @ '' detected from 10.0.0.1''), raw_event = None,
       status = st, created_at = t, updated_at = t, resolved_at = None,
       assigned_to = None, country_code = Some ''US'', city = Some ''New York'',
       latitude = Some 4071280000, longitude = Some (- 7400600000) \<rparr>"

text \<open>A request with no query string.\<close>

definition no_parameters :: alerts_query where
  "no_parameters =
     \<lparr> q_page = None, q_limit = None, q_severity = None, q_status = None,
       q_alertType = None, q_sourceIp = None, q_destinationIp = None,
       q_timeRange = None, q_search = None \<rparr>"

text \<open>One \<open>Critical\<close> alert at time 100000 and nine \<open>High\<close> ones in the hour before.\<close>

definition ten_alerts :: "alert list" where
  "ten_alerts =
     example_alert 1 ''Port Scan'' Critical New 100000 #
     map (\<lambda>i. example_alert i ''Failed Login'' High New (100000 - 60 * int i)) [2..<11]"

text \<open>A table of 501 rows.\<close>

definition many_alerts :: "alert list" where
  "many_alerts = map (\<lambda>i. example_alert (Suc i) ''Port Scan'' Low New (int i)) [0..<501]"

text \<open>Two rows with the same \<open>created_at\<close>, and three rows out of time order.\<close>

definition tied_alerts :: "alert list" where
  "tied_alerts =
     [example_alert 1 ''Port Scan'' High New 5000, example_alert 2 ''Port Scan'' High New 5000]"

definition three_alerts :: "alert list" where
  "three_alerts =
     [example_alert 1 ''Port Scan'' High New 10, example_alert 2 ''Failed Login'' Low New 30,
      example_alert 3 ''Port Scan'' Medium Resolved 20]"

text \<open>Two alert types with one alert each; a Critical and a Medium alert at one place.\<close>

definition two_types :: "alert list" where
  "two_types =
     [example_alert 1 ''Port Scan'' High New 5000, example_alert 2 ''Failed Login'' High New 6000]"

definition critical_and_medium :: "alert list" where
  "critical_and_medium =
     [example_alert 1 ''Port Scan'' Critical New 99000,
      example_alert 2 ''Failed Login'' Medium New 99500]"

text \<open>Random numbers that pick the status \<open>Resolved\<close>, for every iteration.\<close>

definition resolved_draw :: sample_draw where
  "resolved_draw =
     \<lparr> r_alertType = 3, r_severity = 1, r_status = 3, r_location = 2,
       r_sourceIP = (10, 0, 0, 1), r_destIP = (1, 100), r_age = 60,
       r_sourcePort = 4444, r_destinationPort = 443, r_protocol = 0,
       r_rawEvent = ''{}'' \<rparr>"

text \<open>
  A server with socket 1 in the room \<open>SOC Analyst\<close> and socket 2 in no room, and a
  run of events: two firing runs of the handler, one that does not fire, a room joined and
  a third socket connecting in between.
\<close>

definition firing_draw :: tick_draw where
  "firing_draw = \<lparr> t_fire = True, t_alertType = 0, t_severity = 1, t_location = 2,
                    t_sourceIP = (203, 0, 113, 7) \<rparr>"

definition example_server :: server where
  "example_server =
     \<lparr> db_alerts = [],
       io = connection 2 (join_role 1 ''SOC Analyst'' (connection 1 Map.empty)) \<rparr>"

definition example_events :: "event list" where
  "example_events =
     [Tick 100 firing_draw, Join_role 2 ''Administrator'',
      Tick 110 (firing_draw\<lparr> t_fire := False \<rparr>), Connection 3, Tick 120 firing_draw]"

section \<open>Properties\<close>

subsection \<open>Threat level\<close>

lemma severity_text_in:
  "severity_text s \<in> set [''Critical'', ''High''] \<longleftrightarrow> s \<in> {Critical, High}"
  by (cases s) simp_all

lemma criticalAlerts_card:
  "criticalAlerts now tbl =
     card {i. i < length tbl \<and> severity (tbl ! i) \<in> {Critical, High}
              \<and> now - 3600 \<le> created_at (tbl ! i)}"
  unfolding criticalAlerts_def severity_text_in by (simp add: length_filter_conv_card)

text \<open>
  C1. The threat level depends on the table only through the number of rows with severity
  Critical or High created within the last hour: more than 10 is Red, more than 5 and at
  most 10 is Yellow, anything else is Green.
\<close>

theorem threatLevel_thresholds:
  "threatLevel now tbl =
     (let n = card {i. i < length tbl \<and> severity (tbl ! i) \<in> {Critical, High}
                        \<and> now - 3600 \<le> created_at (tbl ! i)}
      in if n > 10 then Red else if 5 < n \<and> n \<le> 10 then Yellow else Green)"
  unfolding criticalAlerts_card [symmetric] threatLevel_def by (simp add: Let_def)

lemma ten_alerts_count: "criticalAlerts 100000 ten_alerts = 10"
  by (simp add: criticalAlerts_def ten_alerts_def example_alert_def upt_rec_numeral)

text \<open>
  The example of C1: one Critical alert now and nine High ones within the last hour, ten
  in all, give Yellow and not Red.
\<close>

theorem threatLevel_ten_alerts:
  "length ten_alerts = 10 \<and> threatLevel 100000 ten_alerts = Yellow
   \<and> threatLevel 100000 ten_alerts \<noteq> Red"
  using threatLevel_thresholds [of 100000 ten_alerts]
  unfolding criticalAlerts_card [symmetric] ten_alerts_count
  by (simp add: ten_alerts_def)

subsection \<open>Alert query: what a response is made of\<close>

lemma get_alerts_InrE:
  assumes "get_alerts coll now tbl q ord = Some (Inr r)"
  obtains lmt pg where
    "parseInt_default 50 (q_limit q) = Some lmt" "parseInt_default 1 (q_page q) = Some pg"
    "0 \<le> lmt" "0 \<le> (pg - 1) * lmt"
    "order_by_created_at_desc (select_where coll now (where_conditions q) tbl) ord"
    "alerts r = take (nat lmt) (drop (nat ((pg - 1) * lmt)) ord)"
    "pagination r = \<lparr> page = pg, limit = lmt,
                       total = length (select_where coll now (where_conditions q) tbl),
                       pages = ceil_div (length (select_where coll now (where_conditions q) tbl)) lmt \<rparr>"
  using assms
  by (auto simp: get_alerts_def Let_def split: option.splits if_splits)

lemma where_conditions_no_parameters: "where_conditions no_parameters = []"
  by (simp add: where_conditions_def no_parameters_def truthy_def)

lemma select_where_Nil: "select_where coll now [] tbl = tbl"
  by (simp add: select_where_def)

lemma get_alerts_tied:
  "get_alerts binary 100000 tied_alerts no_parameters tied_alerts =
     Some (Inr \<lparr> alerts = tied_alerts,
                 pagination = \<lparr> page = 1, limit = 50, total = 2, pages = Num 1 \<rparr> \<rparr>)"
  unfolding get_alerts_def Let_def where_conditions_no_parameters select_where_Nil
  by (simp add: parseInt_default_def no_parameters_def order_by_created_at_desc_def
      tied_alerts_def example_alert_def ceil_div_def)

lemma get_alerts_tied_rev:
  "get_alerts binary 100000 tied_alerts no_parameters (rev tied_alerts) =
     Some (Inr \<lparr> alerts = rev tied_alerts,
                 pagination = \<lparr> page = 1, limit = 50, total = 2, pages = Num 1 \<rparr> \<rparr>)"
  unfolding get_alerts_def Let_def where_conditions_no_parameters select_where_Nil
  by (simp add: parseInt_default_def no_parameters_def order_by_created_at_desc_def
      tied_alerts_def example_alert_def ceil_div_def)

lemma get_alerts_three:
  "get_alerts binary 100000 three_alerts no_parameters
       [three_alerts ! 1, three_alerts ! 2, three_alerts ! 0] =
     Some (Inr \<lparr> alerts = [three_alerts ! 1, three_alerts ! 2, three_alerts ! 0],
                 pagination = \<lparr> page = 1, limit = 50, total = 3, pages = Num 1 \<rparr> \<rparr>)"
  unfolding get_alerts_def Let_def where_conditions_no_parameters select_where_Nil
  by (simp add: parseInt_default_def no_parameters_def order_by_created_at_desc_def
      three_alerts_def example_alert_def ceil_div_def)

subsection \<open>Alert query: order\<close>

lemma sorted_wrt_page: "sorted_wrt R xs \<Longrightarrow> sorted_wrt R (take n (drop k xs))"
  by simp

text \<open>
  C4, as the code has it. A response lists its alerts by \<open>created_at\<close> descending: it
  is the requested page of the order \<open>ord\<close> the engine gave the selected rows, which
  holds each selected row once with \<open>created_at\<close> never increasing. The statement names
  no second sort key, so the order among rows with one \<open>created_at\<close> is not fixed: every
  such order of the same rows is one the handler can answer with, and the id breaks no
  tie.
\<close>

theorem alerts_ordered_by_created_at:
  assumes "get_alerts coll now tbl q ord = Some (Inr r)"
  shows "sorted_wrt (\<lambda>a b. created_at a \<ge> created_at b) (alerts r)
       \<and> alerts r = take (nat (limit (pagination r)))
                     (drop (nat ((page (pagination r) - 1) * limit (pagination r))) ord)
       \<and> mset ord = mset (select_where coll now (where_conditions q) tbl)
       \<and> sorted_wrt (\<lambda>a b. created_at a \<ge> created_at b) ord
       \<and> (\<forall>ord'. mset ord' = mset ord
                  \<and> sorted_wrt (\<lambda>a b. created_at a \<ge> created_at b) ord' \<longrightarrow>
             get_alerts coll now tbl q ord'
               = Some (Inr (r\<lparr> alerts := take (nat (limit (pagination r)))
                     (drop (nat ((page (pagination r) - 1) * limit (pagination r))) ord') \<rparr>)))"
proof -
  from assms obtain lmt pg where
    l: "parseInt_default 50 (q_limit q) = Some lmt"
    and g: "parseInt_default 1 (q_page q) = Some pg"
    and n: "0 \<le> lmt" "0 \<le> (pg - 1) * lmt"
    and o: "order_by_created_at_desc (select_where coll now (where_conditions q) tbl) ord"
    and a: "alerts r = take (nat lmt) (drop (nat ((pg - 1) * lmt)) ord)"
    and p: "pagination r = \<lparr> page = pg, limit = lmt,
                       total = length (select_where coll now (where_conditions q) tbl),
                       pages = ceil_div (length (select_where coll now (where_conditions q) tbl)) lmt \<rparr>"
    by (rule get_alerts_InrE)
  from o have m: "mset ord = mset (select_where coll now (where_conditions q) tbl)"
    and s: "sorted_wrt (\<lambda>a b. created_at a \<ge> created_at b) ord"
    by (simp_all add: order_by_created_at_desc_def)
  have 1: "sorted_wrt (\<lambda>a b. created_at a \<ge> created_at b) (alerts r)"
    unfolding a using s by (rule sorted_wrt_page)
  have 2: "alerts r = take (nat (limit (pagination r)))
                        (drop (nat ((page (pagination r) - 1) * limit (pagination r))) ord)"
    using a p by simp
  have 3: "\<forall>ord'. mset ord' = mset ord
                  \<and> sorted_wrt (\<lambda>a b. created_at a \<ge> created_at b) ord' \<longrightarrow>
             get_alerts coll now tbl q ord'
               = Some (Inr (r\<lparr> alerts := take (nat (limit (pagination r)))
                     (drop (nat ((page (pagination r) - 1) * limit (pagination r))) ord') \<rparr>))"
  proof (intro allI impI)
    fix ord'
    assume h: "mset ord' = mset ord \<and> sorted_wrt (\<lambda>a b. created_at a \<ge> created_at b) ord'"
    with m have o': "order_by_created_at_desc (select_where coll now (where_conditions q) tbl) ord'"
      by (simp add: order_by_created_at_desc_def)
    have "r = \<lparr> alerts = alerts r, pagination = pagination r \<rparr>" by simp
    then have "r\<lparr> alerts := take (nat lmt) (drop (nat ((pg - 1) * lmt)) ord') \<rparr>
        = \<lparr> alerts = take (nat lmt) (drop (nat ((pg - 1) * lmt)) ord'), pagination = pagination r \<rparr>"
      by (metis alerts_response.update_convs(1))
    then show "get_alerts coll now tbl q ord'
               = Some (Inr (r\<lparr> alerts := take (nat (limit (pagination r)))
                     (drop (nat ((page (pagination r) - 1) * limit (pagination r))) ord') \<rparr>))"
      using l g n o' by (simp add: get_alerts_def Let_def p)
  qed
  show ?thesis using 1 2 m s 3 by (intro conjI)
qed

text \<open>
  Three rows created at 10, 30 and 20: the engine's order is 30, 20, 10, and so is the
  response.
\<close>

theorem alerts_ordered_three_alerts:
  "get_alerts binary 100000 three_alerts no_parameters
       [three_alerts ! 1, three_alerts ! 2, three_alerts ! 0] =
     Some (Inr \<lparr> alerts = [three_alerts ! 1, three_alerts ! 2, three_alerts ! 0],
                 pagination = \<lparr> page = 1, limit = 50, total = 3, pages = Num 1 \<rparr> \<rparr>)
   \<and> sorted_wrt (\<lambda>a b. created_at a \<ge> created_at b)
        (alerts \<lparr> alerts = [three_alerts ! 1, three_alerts ! 2, three_alerts ! 0],
                  pagination = \<lparr> page = 1, limit = 50, total = 3, pages = Num 1 \<rparr> \<rparr>)
   \<and> map created_at [three_alerts ! 1, three_alerts ! 2, three_alerts ! 0] = [30, 20, 10]"
proof -
  have "sorted_wrt (\<lambda>a b. created_at a \<ge> created_at b)
        (alerts \<lparr> alerts = [three_alerts ! 1, three_alerts ! 2, three_alerts ! 0],
                  pagination = \<lparr> page = 1, limit = 50, total = 3, pages = Num 1 \<rparr> \<rparr>)"
    using alerts_ordered_by_created_at [OF get_alerts_three] by blast
  moreover have "map created_at [three_alerts ! 1, three_alerts ! 2, three_alerts ! 0] = [30, 20, 10]"
    by (simp add: three_alerts_def example_alert_def)
  ultimately show ?thesis using get_alerts_three by blast
qed

text \<open>
  C4 as stated fails. Two rows have the same \<open>created_at\<close> and the ids 1 and 2. The
  handler can answer with id 1 before id 2, which is not (\<open>created_at\<close> descending, id
  descending) order, and it can answer with id 2 before id 1: the request does not
  determine the order.
\<close>

theorem alerts_tie_counterexample:
  "get_alerts binary 100000 tied_alerts no_parameters tied_alerts =
     Some (Inr \<lparr> alerts = tied_alerts,
                 pagination = \<lparr> page = 1, limit = 50, total = 2, pages = Num 1 \<rparr> \<rparr>)
   \<and> get_alerts binary 100000 tied_alerts no_parameters (rev tied_alerts) =
     Some (Inr \<lparr> alerts = rev tied_alerts,
                 pagination = \<lparr> page = 1, limit = 50, total = 2, pages = Num 1 \<rparr> \<rparr>)
   \<and> map alert_id tied_alerts = [1, 2]
   \<and> map created_at tied_alerts = [5000, 5000]
   \<and> \<not> sorted_wrt (\<lambda>a b. created_at a > created_at b
                          \<or> (created_at a = created_at b \<and> alert_id a > alert_id b))
        tied_alerts
   \<and> rev tied_alerts \<noteq> tied_alerts"
  unfolding get_alerts_tied get_alerts_tied_rev
  by (simp add: tied_alerts_def example_alert_def)

subsection \<open>Alert query: page size\<close>

lemma length_many_alerts: "length many_alerts = 501"
  by (simp add: many_alerts_def)

lemma parseInt_501: "parseInt ''501'' = Some 501"
  by (simp add: parseInt_def radix_digit_def js_whitespace_def)

lemma order_many_alerts: "order_by_created_at_desc many_alerts (rev many_alerts)"
proof -
  have "sorted_wrt (\<lambda>i j. i < j) [0..<501]" by (rule sorted_wrt_upt)
  then have "sorted_wrt (\<lambda>i j. int i \<le> int j) [0..<501]"
    by (rule sorted_wrt_mono_rel [rotated]) simp
  then have "sorted_wrt (\<lambda>a b. created_at b \<ge> created_at a) many_alerts"
    by (simp add: many_alerts_def sorted_wrt_map example_alert_def)
  then have "sorted_wrt (\<lambda>a b. created_at a \<ge> created_at b) (rev many_alerts)"
    by (simp add: sorted_wrt_rev)
  then show ?thesis by (simp add: order_by_created_at_desc_def)
qed

text \<open>
  C6 as stated fails: \<open>limit=501\<close> on a table of 501 rows returns all 501, more than
  the maximum of 500 the claim names.
\<close>

theorem page_size_counterexample:
  "get_alerts binary 100000 many_alerts (no_parameters\<lparr> q_limit := Some ''501'' \<rparr>)
       (rev many_alerts) =
     Some (Inr \<lparr> alerts = rev many_alerts,
                 pagination = \<lparr> page = 1, limit = 501, total = 501, pages = Num 1 \<rparr> \<rparr>)
   \<and> length (rev many_alerts) = 501"
proof -
  have w: "where_conditions (no_parameters\<lparr> q_limit := Some ''501'' \<rparr>) = []"
    by (simp add: where_conditions_def no_parameters_def truthy_def)
  show ?thesis
    unfolding get_alerts_def Let_def w select_where_Nil
    by (simp add: parseInt_default_def parseInt_501 no_parameters_def
        order_many_alerts length_many_alerts ceil_div_def)
qed

text \<open>
  C6, as the code has it. The page size is the requested \<open>limit\<close> as \<open>parseInt\<close> reads
  it (50 when the request has none), with no maximum: a response holds at most that many
  alerts, and exactly that many whenever that many rows are left from the page's offset.
\<close>

theorem page_size_is_requested_limit:
  assumes "get_alerts coll now tbl q ord = Some (Inr r)"
  shows "parseInt_default 50 (q_limit q) = Some (limit (pagination r))
         \<and> length (alerts r) \<le> nat (limit (pagination r))
         \<and> length (alerts r) = min (nat (limit (pagination r)))
              (total (pagination r) - nat ((page (pagination r) - 1) * limit (pagination r)))"
proof -
  from assms obtain lmt pg where
    l: "parseInt_default 50 (q_limit q) = Some lmt"
    and o: "order_by_created_at_desc (select_where coll now (where_conditions q) tbl) ord"
    and a: "alerts r = take (nat lmt) (drop (nat ((pg - 1) * lmt)) ord)"
    and p: "pagination r = \<lparr> page = pg, limit = lmt,
                       total = length (select_where coll now (where_conditions q) tbl),
                       pages = ceil_div (length (select_where coll now (where_conditions q) tbl)) lmt \<rparr>"
    by (rule get_alerts_InrE)
  from o have "mset ord = mset (select_where coll now (where_conditions q) tbl)"
    by (simp add: order_by_created_at_desc_def)
  then have n: "length ord = length (select_where coll now (where_conditions q) tbl)"
    by (rule mset_eq_length)
  show ?thesis
    using l by (simp add: a p n min.commute)
qed

lemma parseInt_2: "parseInt ''2'' = Some 2"
  by (simp add: parseInt_def radix_digit_def js_whitespace_def)

lemma get_alerts_three_limit2:
  "get_alerts binary 100000 three_alerts (no_parameters\<lparr> q_limit := Some ''2'' \<rparr>)
       [three_alerts ! 1, three_alerts ! 2, three_alerts ! 0] =
     Some (Inr \<lparr> alerts = [three_alerts ! 1, three_alerts ! 2],
                 pagination = \<lparr> page = 1, limit = 2, total = 3, pages = Num 2 \<rparr> \<rparr>)"
proof -
  have w: "where_conditions (no_parameters\<lparr> q_limit := Some ''2'' \<rparr>) = []"
    by (simp add: where_conditions_def no_parameters_def truthy_def)
  show ?thesis
    unfolding get_alerts_def Let_def w select_where_Nil
    by (simp add: parseInt_default_def parseInt_2 no_parameters_def
        order_by_created_at_desc_def three_alerts_def example_alert_def ceil_div_def)
qed

text \<open>
  \<open>limit=2\<close> on the three example rows: the response holds two of the three.
\<close>

theorem page_size_three_alerts:
  "get_alerts binary 100000 three_alerts (no_parameters\<lparr> q_limit := Some ''2'' \<rparr>)
       [three_alerts ! 1, three_alerts ! 2, three_alerts ! 0] =
     Some (Inr \<lparr> alerts = [three_alerts ! 1, three_alerts ! 2],
                 pagination = \<lparr> page = 1, limit = 2, total = 3, pages = Num 2 \<rparr> \<rparr>)
   \<and> parseInt_default 50 (q_limit (no_parameters\<lparr> q_limit := Some ''2'' \<rparr>)) = Some 2
   \<and> length [three_alerts ! 1, three_alerts ! 2] = min (nat 2) (3 - nat ((1 - 1) * 2))"
proof -
  note t = page_size_is_requested_limit [OF get_alerts_three_limit2]
  have 1: "parseInt_default 50 (q_limit (no_parameters\<lparr> q_limit := Some ''2'' \<rparr>)) = Some 2"
    using t [THEN conjunct1] by simp
  have 2: "length [three_alerts ! 1, three_alerts ! 2] = min (nat 2) (3 - nat ((1 - 1) * 2))"
    using t [THEN conjunct2, THEN conjunct2] by simp
  show ?thesis using 1 2 get_alerts_three_limit2 by blast
qed

subsection \<open>Alert query: filters\<close>

lemma sql_like_percent_suffix: "sql_like coll x ''%''"
  by (induction x) auto

lemma sql_like_percent:
  "sql_like coll x (CHR ''%'' # p) \<longleftrightarrow> (\<exists>u v. x = u @ v \<and> sql_like coll v p)"
proof (induction x)
  case Nil
  then show ?case by simp
next
  case (Cons c x)
  show ?case
  proof
    assume "sql_like coll (c # x) (CHR ''%'' # p)"
    then consider "sql_like coll (c # x) p" | "sql_like coll x (CHR ''%'' # p)" by auto
    then show "\<exists>u v. c # x = u @ v \<and> sql_like coll v p"
    proof cases
      case 1
      then have "c # x = [] @ (c # x) \<and> sql_like coll (c # x) p" by simp
      then show ?thesis by blast
    next
      case 2
      with Cons.IH obtain u v where "x = u @ v" "sql_like coll v p" by blast
      then have "c # x = (c # u) @ v \<and> sql_like coll v p" by simp
      then show ?thesis by blast
    qed
  next
    assume "\<exists>u v. c # x = u @ v \<and> sql_like coll v p"
    then obtain u v where uv: "c # x = u @ v" "sql_like coll v p" by blast
    show "sql_like coll (c # x) (CHR ''%'' # p)"
    proof (cases u)
      case Nil
      with uv show ?thesis by simp
    next
      case (Cons d u')
      with uv have "x = u' @ v" by simp
      with uv(2) Cons.IH have "sql_like coll x (CHR ''%'' # p)" by blast
      then show ?thesis by simp
    qed
  qed
qed

lemma sql_like_literal:
  assumes "c \<noteq> CHR ''%''" "c \<noteq> CHR ''_''" "c \<noteq> CHR 0x5C"
  shows "sql_like coll x (c # p) \<longleftrightarrow> (\<exists>d y. x = d # y \<and> coll d = coll c \<and> sql_like coll y p)"
  using assms by (cases x) simp_all

lemma sql_like_plain_prefix:
  "wildcard_free s \<Longrightarrow>
     sql_like coll x (s @ p)
       \<longleftrightarrow> (\<exists>m y. x = m @ y \<and> weights coll m = weights coll s \<and> sql_like coll y p)"
proof (induction s arbitrary: x)
  case Nil
  then show ?case by (simp add: weights_def)
next
  case (Cons c s)
  from Cons.prems have c: "c \<noteq> CHR ''%''" "c \<noteq> CHR ''_''" "c \<noteq> CHR 0x5C"
    and s: "wildcard_free s" by (simp_all add: wildcard_free_def)
  have "sql_like coll x ((c # s) @ p)
          \<longleftrightarrow> (\<exists>d y. x = d # y \<and> coll d = coll c \<and> sql_like coll y (s @ p))"
    using sql_like_literal [OF c] by simp
  also have "\<dots> \<longleftrightarrow> (\<exists>d y. x = d # y \<and> coll d = coll c
        \<and> (\<exists>m z. y = m @ z \<and> weights coll m = weights coll s \<and> sql_like coll z p))"
    using Cons.IH [OF s] by simp
  also have "\<dots> \<longleftrightarrow> (\<exists>m z. x = m @ z \<and> weights coll m = weights coll (c # s) \<and> sql_like coll z p)"
  proof
    assume "\<exists>d y. x = d # y \<and> coll d = coll c
        \<and> (\<exists>m z. y = m @ z \<and> weights coll m = weights coll s \<and> sql_like coll z p)"
    then obtain d m z where "x = (d # m) @ z" "coll d = coll c" "weights coll m = weights coll s"
      "sql_like coll z p" by auto
    then have "x = (d # m) @ z \<and> weights coll (d # m) = weights coll (c # s) \<and> sql_like coll z p"
      by (simp add: weights_def)
    then show "\<exists>m z. x = m @ z \<and> weights coll m = weights coll (c # s) \<and> sql_like coll z p"
      by blast
  next
    assume "\<exists>m z. x = m @ z \<and> weights coll m = weights coll (c # s) \<and> sql_like coll z p"
    then obtain m z where mz: "x = m @ z" "weights coll m = weights coll (c # s)" "sql_like coll z p"
      by blast
    from mz(2) obtain d m' where "m = d # m'" "coll d = coll c" "weights coll m' = weights coll s"
      by (auto simp: weights_def map_eq_Cons_conv)
    with mz show "\<exists>d y. x = d # y \<and> coll d = coll c
        \<and> (\<exists>m z. y = m @ z \<and> weights coll m = weights coll s \<and> sql_like coll z p)"
      by auto
  qed
  finally show ?case .
qed

lemma sql_like_contains:
  assumes "wildcard_free s"
  shows "sql_like coll x (''%'' @ s @ ''%'')
           \<longleftrightarrow> (\<exists>u m v. x = u @ m @ v \<and> weights coll m = weights coll s)"
proof -
  have pre: "sql_like coll w (s @ ''%'') \<longleftrightarrow> (\<exists>m v. w = m @ v \<and> weights coll m = weights coll s)"
    for w
    by (simp add: sql_like_plain_prefix [OF assms] sql_like_percent_suffix del: sql_like.simps)
  have "sql_like coll x (''%'' @ s @ ''%'') \<longleftrightarrow> (\<exists>u w. x = u @ w \<and> sql_like coll w (s @ ''%''))"
    using sql_like_percent [of coll x "s @ ''%''"] by simp
  also have "\<dots> \<longleftrightarrow> (\<exists>u w. x = u @ w \<and> (\<exists>m v. w = m @ v \<and> weights coll m = weights coll s))"
    unfolding pre ..
  also have "\<dots> \<longleftrightarrow> (\<exists>u m v. x = u @ m @ v \<and> weights coll m = weights coll s)"
    by auto
  finally show ?thesis .
qed

lemma like_opt_contains:
  assumes "wildcard_free s"
  shows "like_opt coll col (''%'' @ s @ ''%'')
           \<longleftrightarrow> (\<exists>x u m v. col = Some x \<and> x = u @ m @ v \<and> weights coll m = weights coll s)"
  using sql_like_contains [OF assms, of coll]
  by (cases col) (simp_all add: like_opt_def)

lemma where_conditions_hold_iff:
  "list_all (holds coll now a) (where_conditions q) \<longleftrightarrow>
     (truthy (q_severity q) \<longrightarrow>
        weights coll (severity_text (severity a)) = weights coll (the (q_severity q))) \<and>
     (truthy (q_status q) \<longrightarrow>
        weights coll (status_text (status a)) = weights coll (the (q_status q))) \<and>
     (truthy (q_alertType q) \<longrightarrow>
        weights coll (alert_type a) = weights coll (the (q_alertType q))) \<and>
     (truthy (q_sourceIp q) \<longrightarrow>
        like_opt coll (source_ip a) (''%'' @ the (q_sourceIp q) @ ''%'')) \<and>
     (truthy (q_destinationIp q) \<longrightarrow>
        like_opt coll (destination_ip a) (''%'' @ the (q_destinationIp q) @ ''%'')) \<and>
     (truthy (q_timeRange q) \<longrightarrow>
        (\<exists>h. parseInt (the (q_timeRange q)) = Some h \<and> now - h * 3600 \<le> created_at a)) \<and>
     (truthy (q_search q) \<longrightarrow>
        sql_like coll (alert_type a) (''%'' @ the (q_search q) @ ''%'')
        \<or> like_opt coll (description a) (''%'' @ the (q_search q) @ ''%'')
        \<or> like_opt coll (source_ip a) (''%'' @ the (q_search q) @ ''%''))"
proof -
  have t: "holds coll now a (Created_within (parseInt s))
             \<longleftrightarrow> (\<exists>h. parseInt s = Some h \<and> now - h * 3600 \<le> created_at a)" for s
    by (cases "parseInt s") simp_all
  show ?thesis
    unfolding where_conditions_def list_all_append
    by (simp add: t del: sql_like.simps)
qed

lemma where_conditions_extend:
  assumes "list_all (holds coll now a) (where_conditions q')"
    and "truthy (q_severity q) \<longrightarrow> q_severity q' = q_severity q"
    and "truthy (q_status q) \<longrightarrow> q_status q' = q_status q"
    and "truthy (q_alertType q) \<longrightarrow> q_alertType q' = q_alertType q"
    and "truthy (q_sourceIp q) \<longrightarrow> q_sourceIp q' = q_sourceIp q"
    and "truthy (q_destinationIp q) \<longrightarrow> q_destinationIp q' = q_destinationIp q"
    and "truthy (q_timeRange q) \<longrightarrow> q_timeRange q' = q_timeRange q"
    and "truthy (q_search q) \<longrightarrow> q_search q' = q_search q"
  shows "list_all (holds coll now a) (where_conditions q)"
  using assms unfolding where_conditions_hold_iff by metis

lemma parseInt_1: "parseInt ''1'' = Some 1"
  by (simp add: parseInt_def radix_digit_def js_whitespace_def)

lemma parseInt_24: "parseInt ''24'' = Some 24"
  by (simp add: parseInt_def radix_digit_def js_whitespace_def)

lemma high_last_hour_subset:
  "set (select_where coll now (where_conditions
          (no_parameters\<lparr> q_severity := Some ''High'', q_timeRange := Some ''1'' \<rparr>)) tbl)
   \<subseteq> set (select_where coll now (where_conditions
          (no_parameters\<lparr> q_timeRange := Some ''24'' \<rparr>)) tbl)"
  unfolding select_where_def where_conditions_hold_iff
  by (auto simp: no_parameters_def truthy_def parseInt_1 parseInt_24)

lemma alerts_subset_select_where:
  assumes "get_alerts coll now tbl q ord = Some (Inr r)"
  shows "set (alerts r) \<subseteq> set (select_where coll now (where_conditions q) tbl)"
proof -
  from assms obtain lmt pg where
    o: "order_by_created_at_desc (select_where coll now (where_conditions q) tbl) ord"
    and a: "alerts r = take (nat lmt) (drop (nat ((pg - 1) * lmt)) ord)"
    by (rule get_alerts_InrE)
  from o have "mset ord = mset (select_where coll now (where_conditions q) tbl)"
    by (simp add: order_by_created_at_desc_def)
  then have "set ord = set (select_where coll now (where_conditions q) tbl)"
    by (rule mset_eq_setD)
  moreover have "set (alerts r) \<subseteq> set ord"
    unfolding a by (meson set_take_subset set_drop_subset subset_trans)
  ultimately show ?thesis by simp
qed

lemma get_alerts_three_failed:
  "get_alerts ascii_ci 100000 three_alerts (no_parameters\<lparr> q_search := Some ''failed'' \<rparr>)
       [three_alerts ! 1] =
     Some (Inr \<lparr> alerts = [three_alerts ! 1],
                 pagination = \<lparr> page = 1, limit = 50, total = 1, pages = Num 1 \<rparr> \<rparr>)"
proof -
  have w: "where_conditions (no_parameters\<lparr> q_search := Some ''failed'' \<rparr>)
             = [Search_like ''%failed%'' ''%failed%'' ''%failed%'']"
    by (simp add: where_conditions_def no_parameters_def truthy_def)
  show ?thesis
    unfolding get_alerts_def Let_def w
    by (simp add: select_where_def parseInt_default_def no_parameters_def like_opt_def
        order_by_created_at_desc_def three_alerts_def example_alert_def ceil_div_def ascii_ci_def)
qed

lemma get_alerts_tied_underscore:
  "get_alerts binary 100000 tied_alerts (no_parameters\<lparr> q_sourceIp := Some ''_'' \<rparr>) tied_alerts =
     Some (Inr \<lparr> alerts = tied_alerts,
                 pagination = \<lparr> page = 1, limit = 50, total = 2, pages = Num 1 \<rparr> \<rparr>)"
proof -
  have w: "where_conditions (no_parameters\<lparr> q_sourceIp := Some ''_'' \<rparr>) = [Source_ip_like ''%_%'']"
    by (simp add: where_conditions_def no_parameters_def truthy_def)
  show ?thesis
    unfolding get_alerts_def Let_def w
    by (simp add: select_where_def parseInt_default_def no_parameters_def like_opt_def
        order_by_created_at_desc_def tied_alerts_def example_alert_def ceil_div_def)
qed

text \<open>
  C5, as the code has it. Let the texts of \<open>sourceIp\<close>, \<open>destinationIp\<close> and
  \<open>search\<close>, where supplied, hold none of the characters \<open>LIKE\<close> reads as syntax.
  Then the rows a request selects are exactly the rows of the table that pass the test of
  every supplied parameter: the tests are conjoined, and a parameter that is absent (or
  empty) tests nothing. \<open>severity\<close>, \<open>status\<close> and \<open>alertType\<close> test for equality,
  \<open>timeRange\<close> for a \<open>created_at\<close> within that many hours, \<open>sourceIp\<close> and
  \<open>destinationIp\<close> for a part of the address equal to the text, \<open>search\<close> for such a
  part in the type, the description or the source address; texts are equal up to the
  collation. For all texts: every alert of a response is a selected row, a request that
  adds parameters to another selects a subset of its rows, and so does
  \<open>severity=High\<close> with \<open>timeRange=1\<close> against \<open>timeRange=24\<close>.
\<close>

theorem alert_filters_conjunctive:
  "((truthy (q_sourceIp q) \<longrightarrow> wildcard_free (the (q_sourceIp q))) \<and>
    (truthy (q_destinationIp q) \<longrightarrow> wildcard_free (the (q_destinationIp q))) \<and>
    (truthy (q_search q) \<longrightarrow> wildcard_free (the (q_search q))) \<longrightarrow>
    (a \<in> set (select_where coll now (where_conditions q) tbl) \<longleftrightarrow>
       a \<in> set tbl \<and>
       (truthy (q_severity q) \<longrightarrow>
          weights coll (severity_text (severity a)) = weights coll (the (q_severity q))) \<and>
       (truthy (q_status q) \<longrightarrow>
          weights coll (status_text (status a)) = weights coll (the (q_status q))) \<and>
       (truthy (q_alertType q) \<longrightarrow>
          weights coll (alert_type a) = weights coll (the (q_alertType q))) \<and>
       (truthy (q_sourceIp q) \<longrightarrow>
          (\<exists>x u m v. source_ip a = Some x \<and> x = u @ m @ v
             \<and> weights coll m = weights coll (the (q_sourceIp q)))) \<and>
       (truthy (q_destinationIp q) \<longrightarrow>
          (\<exists>x u m v. destination_ip a = Some x \<and> x = u @ m @ v
             \<and> weights coll m = weights coll (the (q_destinationIp q)))) \<and>
       (truthy (q_timeRange q) \<longrightarrow>
          (\<exists>h. parseInt (the (q_timeRange q)) = Some h \<and> now - h * 3600 \<le> created_at a)) \<and>
       (truthy (q_search q) \<longrightarrow>
          (\<exists>u m v. alert_type a = u @ m @ v \<and> weights coll m = weights coll (the (q_search q)))
          \<or> (\<exists>x u m v. description a = Some x \<and> x = u @ m @ v
                \<and> weights coll m = weights coll (the (q_search q)))
          \<or> (\<exists>x u m v. source_ip a = Some x \<and> x = u @ m @ v
                \<and> weights coll m = weights coll (the (q_search q))))))
   \<and> (get_alerts coll now tbl q ord = Some (Inr r) \<longrightarrow>
          set (alerts r) \<subseteq> set (select_where coll now (where_conditions q) tbl))
   \<and> ((truthy (q_severity q) \<longrightarrow> q_severity q' = q_severity q) \<and>
        (truthy (q_status q) \<longrightarrow> q_status q' = q_status q) \<and>
        (truthy (q_alertType q) \<longrightarrow> q_alertType q' = q_alertType q) \<and>
        (truthy (q_sourceIp q) \<longrightarrow> q_sourceIp q' = q_sourceIp q) \<and>
        (truthy (q_destinationIp q) \<longrightarrow> q_destinationIp q' = q_destinationIp q) \<and>
        (truthy (q_timeRange q) \<longrightarrow> q_timeRange q' = q_timeRange q) \<and>
        (truthy (q_search q) \<longrightarrow> q_search q' = q_search q) \<longrightarrow>
        set (select_where coll now (where_conditions q') tbl)
          \<subseteq> set (select_where coll now (where_conditions q) tbl))
   \<and> set (select_where coll now (where_conditions
            (no_parameters\<lparr> q_severity := Some ''High'', q_timeRange := Some ''1'' \<rparr>)) tbl)
       \<subseteq> set (select_where coll now (where_conditions
                  (no_parameters\<lparr> q_timeRange := Some ''24'' \<rparr>)) tbl)"
proof (intro conjI impI)
  assume h: "(truthy (q_sourceIp q) \<longrightarrow> wildcard_free (the (q_sourceIp q))) \<and>
    (truthy (q_destinationIp q) \<longrightarrow> wildcard_free (the (q_destinationIp q))) \<and>
    (truthy (q_search q) \<longrightarrow> wildcard_free (the (q_search q)))"
  have s: "(truthy (q_sourceIp q) \<longrightarrow>
            like_opt coll (source_ip a) (''%'' @ the (q_sourceIp q) @ ''%''))
       \<longleftrightarrow> (truthy (q_sourceIp q) \<longrightarrow>
            (\<exists>x u m v. source_ip a = Some x \<and> x = u @ m @ v
               \<and> weights coll m = weights coll (the (q_sourceIp q))))"
  proof (cases "truthy (q_sourceIp q)")
    case True
    with h have "wildcard_free (the (q_sourceIp q))" by blast
    then show ?thesis by (simp only: like_opt_contains)
  next
    case False
    then show ?thesis by blast
  qed
  have d: "(truthy (q_destinationIp q) \<longrightarrow>
            like_opt coll (destination_ip a) (''%'' @ the (q_destinationIp q) @ ''%''))
       \<longleftrightarrow> (truthy (q_destinationIp q) \<longrightarrow>
            (\<exists>x u m v. destination_ip a = Some x \<and> x = u @ m @ v
               \<and> weights coll m = weights coll (the (q_destinationIp q))))"
  proof (cases "truthy (q_destinationIp q)")
    case True
    with h have "wildcard_free (the (q_destinationIp q))" by blast
    then show ?thesis by (simp only: like_opt_contains)
  next
    case False
    then show ?thesis by blast
  qed
  have e: "(truthy (q_search q) \<longrightarrow>
            sql_like coll (alert_type a) (''%'' @ the (q_search q) @ ''%'')
            \<or> like_opt coll (description a) (''%'' @ the (q_search q) @ ''%'')
            \<or> like_opt coll (source_ip a) (''%'' @ the (q_search q) @ ''%''))
       \<longleftrightarrow> (truthy (q_search q) \<longrightarrow>
          (\<exists>u m v. alert_type a = u @ m @ v \<and> weights coll m = weights coll (the (q_search q)))
          \<or> (\<exists>x u m v. description a = Some x \<and> x = u @ m @ v
                \<and> weights coll m = weights coll (the (q_search q)))
          \<or> (\<exists>x u m v. source_ip a = Some x \<and> x = u @ m @ v
                \<and> weights coll m = weights coll (the (q_search q))))"
  proof (cases "truthy (q_search q)")
    case True
    with h have "wildcard_free (the (q_search q))" by blast
    then show ?thesis by (simp only: like_opt_contains sql_like_contains)
  next
    case False
    then show ?thesis by blast
  qed
  show "a \<in> set (select_where coll now (where_conditions q) tbl) \<longleftrightarrow>
       a \<in> set tbl \<and>
       (truthy (q_severity q) \<longrightarrow>
          weights coll (severity_text (severity a)) = weights coll (the (q_severity q))) \<and>
       (truthy (q_status q) \<longrightarrow>
          weights coll (status_text (status a)) = weights coll (the (q_status q))) \<and>
       (truthy (q_alertType q) \<longrightarrow>
          weights coll (alert_type a) = weights coll (the (q_alertType q))) \<and>
       (truthy (q_sourceIp q) \<longrightarrow>
          (\<exists>x u m v. source_ip a = Some x \<and> x = u @ m @ v
             \<and> weights coll m = weights coll (the (q_sourceIp q)))) \<and>
       (truthy (q_destinationIp q) \<longrightarrow>
          (\<exists>x u m v. destination_ip a = Some x \<and> x = u @ m @ v
             \<and> weights coll m = weights coll (the (q_destinationIp q)))) \<and>
       (truthy (q_timeRange q) \<longrightarrow>
          (\<exists>h. parseInt (the (q_timeRange q)) = Some h \<and> now - h * 3600 \<le> created_at a)) \<and>
       (truthy (q_search q) \<longrightarrow>
          (\<exists>u m v. alert_type a = u @ m @ v \<and> weights coll m = weights coll (the (q_search q)))
          \<or> (\<exists>x u m v. description a = Some x \<and> x = u @ m @ v
                \<and> weights coll m = weights coll (the (q_search q)))
          \<or> (\<exists>x u m v. source_ip a = Some x \<and> x = u @ m @ v
                \<and> weights coll m = weights coll (the (q_search q))))"
    unfolding select_where_def set_filter mem_Collect_eq where_conditions_hold_iff s d e ..
next
  assume "get_alerts coll now tbl q ord = Some (Inr r)"
  then show "set (alerts r) \<subseteq> set (select_where coll now (where_conditions q) tbl)"
    by (rule alerts_subset_select_where)
next
  assume x: "(truthy (q_severity q) \<longrightarrow> q_severity q' = q_severity q) \<and>
        (truthy (q_status q) \<longrightarrow> q_status q' = q_status q) \<and>
        (truthy (q_alertType q) \<longrightarrow> q_alertType q' = q_alertType q) \<and>
        (truthy (q_sourceIp q) \<longrightarrow> q_sourceIp q' = q_sourceIp q) \<and>
        (truthy (q_destinationIp q) \<longrightarrow> q_destinationIp q' = q_destinationIp q) \<and>
        (truthy (q_timeRange q) \<longrightarrow> q_timeRange q' = q_timeRange q) \<and>
        (truthy (q_search q) \<longrightarrow> q_search q' = q_search q)"
  show "set (select_where coll now (where_conditions q') tbl)
          \<subseteq> set (select_where coll now (where_conditions q) tbl)"
    unfolding select_where_def set_filter
    using x where_conditions_extend [of coll now _ q' q] by blast
next
  show "set (select_where coll now (where_conditions
            (no_parameters\<lparr> q_severity := Some ''High'', q_timeRange := Some ''1'' \<rparr>)) tbl)
       \<subseteq> set (select_where coll now (where_conditions
                  (no_parameters\<lparr> q_timeRange := Some ''24'' \<rparr>)) tbl)"
    by (rule high_last_hour_subset)
qed

text \<open>
  \<open>search=failed\<close> on the three example rows, under a collation that ignores case,
  selects the row of type \<open>Failed Login\<close>.
\<close>

theorem alert_filters_three_alerts:
  "wildcard_free ''failed''
   \<and> alert_type (three_alerts ! 1) = ''Failed Login''
   \<and> weights ascii_ci ''Failed'' = weights ascii_ci ''failed''
   \<and> three_alerts ! 1 \<in> set (select_where ascii_ci 100000
         (where_conditions (no_parameters\<lparr> q_search := Some ''failed'' \<rparr>)) three_alerts)
   \<and> get_alerts ascii_ci 100000 three_alerts (no_parameters\<lparr> q_search := Some ''failed'' \<rparr>)
         [three_alerts ! 1] =
       Some (Inr \<lparr> alerts = [three_alerts ! 1],
                   pagination = \<lparr> page = 1, limit = 50, total = 1, pages = Num 1 \<rparr> \<rparr>)
   \<and> set [three_alerts ! 1] \<subseteq> set (select_where ascii_ci 100000
         (where_conditions (no_parameters\<lparr> q_search := Some ''failed'' \<rparr>)) three_alerts)
   \<and> set (select_where ascii_ci 100000 (where_conditions
         (no_parameters\<lparr> q_search := Some ''failed'', q_status := Some ''New'' \<rparr>)) three_alerts)
       \<subseteq> set (select_where ascii_ci 100000
         (where_conditions (no_parameters\<lparr> q_search := Some ''failed'' \<rparr>)) three_alerts)"
proof -
  let ?q = "no_parameters\<lparr> q_search := Some ''failed'' \<rparr>"
  let ?a = "three_alerts ! 1"
  note t = alert_filters_conjunctive [where q = ?q and a = ?a and coll = ascii_ci
      and now = 100000 and tbl = three_alerts and ord = "[three_alerts ! 1]"
      and r = "\<lparr> alerts = [three_alerts ! 1],
                 pagination = \<lparr> page = 1, limit = 50, total = 1, pages = Num 1 \<rparr> \<rparr>"
      and q' = "no_parameters\<lparr> q_search := Some ''failed'', q_status := Some ''New'' \<rparr>"]
  have 1: "wildcard_free ''failed''"
    by (simp add: wildcard_free_def)
  have 2: "alert_type ?a = ''Failed Login''"
    by (simp add: three_alerts_def example_alert_def)
  have 3: "weights ascii_ci ''Failed'' = weights ascii_ci ''failed''"
    by (simp add: weights_def ascii_ci_def)
  have q: "q_severity ?q = None" "q_status ?q = None" "q_alertType ?q = None"
    "q_sourceIp ?q = None" "q_destinationIp ?q = None" "q_timeRange ?q = None"
    "q_search ?q = Some ''failed''"
    by (simp_all add: no_parameters_def)
  have "alert_type ?a = [] @ ''Failed'' @ '' Login''" using 2 by simp
  with 3 have "\<exists>u m v. alert_type ?a = u @ m @ v \<and> weights ascii_ci m = weights ascii_ci ''failed''"
    by blast
  moreover have "?a \<in> set three_alerts" by (simp add: three_alerts_def)
  ultimately have 4: "?a \<in> set (select_where ascii_ci 100000 (where_conditions ?q) three_alerts)"
    using t [THEN conjunct1] 1 by (simp add: q truthy_def)
  have 5: "set [?a] \<subseteq> set (select_where ascii_ci 100000 (where_conditions ?q) three_alerts)"
    using t [THEN conjunct2, THEN conjunct1] get_alerts_three_failed by simp
  have 6: "set (select_where ascii_ci 100000 (where_conditions
         (no_parameters\<lparr> q_search := Some ''failed'', q_status := Some ''New'' \<rparr>)) three_alerts)
       \<subseteq> set (select_where ascii_ci 100000 (where_conditions ?q) three_alerts)"
    using t [THEN conjunct2, THEN conjunct2, THEN conjunct1]
    by (simp add: truthy_def no_parameters_def)
  show ?thesis using 1 2 3 4 5 6 get_alerts_three_failed by blast
qed

text \<open>
  C5 as stated fails. The handler binds the text of \<open>sourceIp\<close> into the \<open>LIKE\<close>
  pattern as it is: \<open>sourceIp=_\<close> returns rows whose source address is \<open>10.0.0.1\<close>,
  in which the text \<open>_\<close> does not occur.
\<close>

theorem alert_filter_wildcard_counterexample:
  "get_alerts binary 100000 tied_alerts (no_parameters\<lparr> q_sourceIp := Some ''_'' \<rparr>) tied_alerts =
     Some (Inr \<lparr> alerts = tied_alerts,
                 pagination = \<lparr> page = 1, limit = 50, total = 2, pages = Num 1 \<rparr> \<rparr>)
   \<and> map source_ip tied_alerts = [Some ''10.0.0.1'', Some ''10.0.0.1'']
   \<and> CHR ''_'' \<notin> set ''10.0.0.1''"
  unfolding get_alerts_tied_underscore
  by (simp add: tied_alerts_def example_alert_def)

subsection \<open>Alert query: pagination\<close>

lemma ceil_div_ceiling:
  "0 < l \<Longrightarrow> ceil_div n l = Num \<lceil>real n / real_of_int l\<rceil>"
proof -
  assume "0 < l"
  have "\<lceil>real_of_int (int n) / real_of_int l\<rceil> = - (- int n div l)"
    by (rule ceiling_divide_eq_div)
  with \<open>0 < l\<close> show ?thesis by (simp add: ceil_div_def)
qed

text \<open>
  C10. In a response, \<open>total\<close> counts the rows selected by the conditions of the
  request, and the alerts are a page of these same rows in the engine's order; \<open>page\<close>
  and \<open>limit\<close> are the request's, as \<open>parseInt\<close> reads them (1 and 50 when absent);
  and \<open>pages\<close> is \<open>total / limit\<close> rounded up (with \<open>limit = 0\<close>, the \<open>Infinity\<close>
  or \<open>NaN\<close> that division by 0 gives).
\<close>

theorem pagination_consistent:
  assumes "get_alerts coll now tbl q ord = Some (Inr r)"
  shows "total (pagination r)
           = length (filter (\<lambda>a. list_all (holds coll now a) (where_conditions q)) tbl)
       \<and> mset ord = mset (filter (\<lambda>a. list_all (holds coll now a) (where_conditions q)) tbl)
       \<and> alerts r = take (nat (limit (pagination r)))
                     (drop (nat ((page (pagination r) - 1) * limit (pagination r))) ord)
       \<and> parseInt_default 1 (q_page q) = Some (page (pagination r))
       \<and> parseInt_default 50 (q_limit q) = Some (limit (pagination r))
       \<and> 0 \<le> limit (pagination r)
       \<and> (0 < limit (pagination r) \<longrightarrow>
            pages (pagination r)
              = Num \<lceil>real (total (pagination r)) / real_of_int (limit (pagination r))\<rceil>)
       \<and> (limit (pagination r) = 0 \<longrightarrow>
            pages (pagination r) = (if total (pagination r) = 0 then NaN else PosInfinity))"
proof -
  from assms obtain lmt pg where
    l: "parseInt_default 50 (q_limit q) = Some lmt"
    and g: "parseInt_default 1 (q_page q) = Some pg"
    and n: "0 \<le> lmt"
    and o: "order_by_created_at_desc (select_where coll now (where_conditions q) tbl) ord"
    and a: "alerts r = take (nat lmt) (drop (nat ((pg - 1) * lmt)) ord)"
    and p: "pagination r = \<lparr> page = pg, limit = lmt,
                       total = length (select_where coll now (where_conditions q) tbl),
                       pages = ceil_div (length (select_where coll now (where_conditions q) tbl)) lmt \<rparr>"
    by (rule get_alerts_InrE)
  have m: "mset ord = mset (filter (\<lambda>a. list_all (holds coll now a) (where_conditions q)) tbl)"
    using o by (simp add: order_by_created_at_desc_def select_where_def)
  have c: "0 < lmt \<longrightarrow> pages (pagination r)
              = Num \<lceil>real (total (pagination r)) / real_of_int lmt\<rceil>"
    using ceil_div_ceiling by (simp add: p)
  have z: "lmt = 0 \<longrightarrow> pages (pagination r) = (if total (pagination r) = 0 then NaN else PosInfinity)"
    by (simp add: p ceil_div_def)
  show ?thesis
    using l g n c z m by (simp add: a p select_where_def)
qed

lemma get_alerts_three_page2:
  "get_alerts binary 100000 three_alerts (no_parameters\<lparr> q_page := Some ''2'', q_limit := Some ''2'' \<rparr>)
       [three_alerts ! 1, three_alerts ! 2, three_alerts ! 0] =
     Some (Inr \<lparr> alerts = [three_alerts ! 0],
                 pagination = \<lparr> page = 2, limit = 2, total = 3, pages = Num 2 \<rparr> \<rparr>)"
proof -
  have w: "where_conditions (no_parameters\<lparr> q_page := Some ''2'', q_limit := Some ''2'' \<rparr>) = []"
    by (simp add: where_conditions_def no_parameters_def truthy_def)
  show ?thesis
    unfolding get_alerts_def Let_def w select_where_Nil
    by (simp add: parseInt_default_def parseInt_2 no_parameters_def
        order_by_created_at_desc_def three_alerts_def example_alert_def ceil_div_def)
qed

text \<open>
  Page 2 of size 2 over the three example rows: one alert, \<open>total\<close> 3, \<open>pages\<close> 2.
\<close>

theorem pagination_three_alerts:
  "get_alerts binary 100000 three_alerts (no_parameters\<lparr> q_page := Some ''2'', q_limit := Some ''2'' \<rparr>)
       [three_alerts ! 1, three_alerts ! 2, three_alerts ! 0] =
     Some (Inr \<lparr> alerts = [three_alerts ! 0],
                 pagination = \<lparr> page = 2, limit = 2, total = 3, pages = Num 2 \<rparr> \<rparr>)
   \<and> (0::int) < 2
   \<and> Num 2 = Num \<lceil>real 3 / real_of_int 2\<rceil>
   \<and> parseInt_default 1 (q_page (no_parameters\<lparr> q_page := Some ''2'', q_limit := Some ''2'' \<rparr>)) = Some 2"
proof -
  note t = pagination_consistent [OF get_alerts_three_page2]
  have 1: "Num 2 = Num \<lceil>real 3 / real_of_int 2\<rceil>"
    using t [THEN conjunct2, THEN conjunct2, THEN conjunct2, THEN conjunct2, THEN conjunct2,
             THEN conjunct2, THEN conjunct1] by simp
  have 2: "parseInt_default 1 (q_page (no_parameters\<lparr> q_page := Some ''2'', q_limit := Some ''2'' \<rparr>)) = Some 2"
    using t [THEN conjunct2, THEN conjunct2, THEN conjunct2, THEN conjunct1] by simp
  show ?thesis using 1 2 get_alerts_three_page2 by simp
qed

subsection \<open>Top alert types\<close>

lemma group_by_counts:
  "set (map (\<lambda>(k, g). (k, length g)) (group_by key rows))
     = (\<lambda>k. (k, length (filter (\<lambda>a. key a = k) rows))) ` key ` set rows"
  by (auto simp: group_by_def image_iff)

lemma group_by_keys_distinct: "distinct (map fst (group_by key rows))"
  by (simp add: group_by_def comp_def)

lemma group_by_length: "length (group_by key rows) = card (key ` set rows)"
proof -
  have "length (group_by key rows) = length (remdups (rev (map key rows)))"
    by (simp add: group_by_def)
  also have "\<dots> = card (set (rev (map key rows)))"
    by (rule length_remdups_card_conv)
  finally show ?thesis by simp
qed

lemma alert_type_counts_set:
  "set (alert_type_counts coll now tbl)
     = (\<lambda>k. (k, length (filter (\<lambda>a. weights coll (alert_type a) = k
                                      \<and> created_at a \<ge> now - 7 * 24 * 3600) tbl)))
       ` (\<lambda>a. weights coll (alert_type a)) ` {a \<in> set tbl. created_at a \<ge> now - 7 * 24 * 3600}"
proof -
  have "filter (\<lambda>a. weights coll (alert_type a) = k)
          (filter (\<lambda>a. created_at a \<ge> now - 7 * 24 * 3600) tbl)
        = filter (\<lambda>a. weights coll (alert_type a) = k \<and> created_at a \<ge> now - 7 * 24 * 3600) tbl"
    for k by (simp add: conj_commute)
  then show ?thesis
    unfolding alert_type_counts_def group_by_counts by simp
qed

lemma alert_type_counts_distinct: "distinct (map fst (alert_type_counts coll now tbl))"
proof -
  have "map fst (alert_type_counts coll now tbl)
      = map fst (group_by (\<lambda>a. weights coll (alert_type a))
          (filter (\<lambda>a. created_at a \<ge> now - 7 * 24 * 3600) tbl))"
    by (simp add: alert_type_counts_def comp_def case_prod_unfold)
  then show ?thesis by (simp only: group_by_keys_distinct)
qed

lemma alert_type_counts_length:
  "length (alert_type_counts coll now tbl)
     = card ((\<lambda>a. weights coll (alert_type a)) ` {a \<in> set tbl. created_at a \<ge> now - 7 * 24 * 3600})"
  by (simp add: alert_type_counts_def group_by_length)

lemma topAlertTypes_Some:
  assumes "topAlertTypes coll now tbl ord = Some res"
  shows "(mset (map (\<lambda>(t, c). (weights coll t, c)) ord) = mset (alert_type_counts coll now tbl)
         \<and> list_all (\<lambda>(t, c). t \<in> set (map alert_type
               (filter (\<lambda>a. created_at a \<ge> now - 7 * 24 * 3600) tbl))) ord
         \<and> sorted_wrt (\<lambda>r s. snd r \<ge> snd s) ord)
       \<and> res = take 5 ord"
proof (cases "mset (map (\<lambda>(t, c). (weights coll t, c)) ord) = mset (alert_type_counts coll now tbl)
         \<and> list_all (\<lambda>(t, c). t \<in> set (map alert_type
               (filter (\<lambda>a. created_at a \<ge> now - 7 * 24 * 3600) tbl))) ord
         \<and> sorted_wrt (\<lambda>r s. snd r \<ge> snd s) ord")
  case True
  then have "topAlertTypes coll now tbl ord = Some (take 5 ord)"
    unfolding topAlertTypes_def by (rule if_P)
  with assms have "res = take 5 ord" by simp
  with True show ?thesis by (rule conjI)
next
  case False
  then have "topAlertTypes coll now tbl ord = None"
    unfolding topAlertTypes_def by (rule if_not_P)
  with assms show ?thesis by simp
qed

text \<open>
  C7, as the code has it. The top alert types are the first five, or all when there
  are fewer, of the alert types of the last seven days in descending order of their
  number of alerts: each type is listed once (up to the collation) with the number of its
  alerts, and no type left out has more alerts than a listed one. The statement names no
  second sort key, so the order among types with equal counts is not fixed: every such
  order of the same rows is one the engine can answer with, and the name breaks no tie.
\<close>

theorem topAlertTypes_ordered_by_count:
  assumes "topAlertTypes coll now tbl ord = Some res"
  shows "sorted_wrt (\<lambda>r s. snd r \<ge> snd s) res
       \<and> length res = min 5 (card ((\<lambda>a. weights coll (alert_type a))
                                    ` {a \<in> set tbl. created_at a \<ge> now - 7 * 24 * 3600}))
       \<and> distinct (map (\<lambda>r. weights coll (fst r)) res)
       \<and> (\<forall>(t, c) \<in> set res.
             (\<exists>a \<in> set tbl. created_at a \<ge> now - 7 * 24 * 3600 \<and> alert_type a = t)
             \<and> c = length (filter (\<lambda>a. weights coll (alert_type a) = weights coll t
                                        \<and> created_at a \<ge> now - 7 * 24 * 3600) tbl))
       \<and> (\<forall>b \<in> set tbl.
             created_at b \<ge> now - 7 * 24 * 3600
             \<and> weights coll (alert_type b) \<notin> (\<lambda>r. weights coll (fst r)) ` set res \<longrightarrow>
             (\<forall>(t, c) \<in> set res.
                length (filter (\<lambda>a. weights coll (alert_type a) = weights coll (alert_type b)
                                     \<and> created_at a \<ge> now - 7 * 24 * 3600) tbl) \<le> c))
       \<and> (\<forall>ord'. mset ord' = mset ord \<and> sorted_wrt (\<lambda>r s. snd r \<ge> snd s) ord' \<longrightarrow>
             topAlertTypes coll now tbl ord' = Some (take 5 ord'))"
proof -
  let ?f = "\<lambda>(t, c). (weights coll t, c) :: nat list \<times> nat"
  let ?n = "\<lambda>k. length (filter (\<lambda>a. weights coll (alert_type a) = k
                                      \<and> created_at a \<ge> now - 7 * 24 * 3600) tbl)"
  let ?K = "(\<lambda>a. weights coll (alert_type a)) ` {a \<in> set tbl. created_at a \<ge> now - 7 * 24 * 3600}"
  from topAlertTypes_Some [OF assms] have
    m: "mset (map ?f ord) = mset (alert_type_counts coll now tbl)"
    and w: "list_all (\<lambda>(t, c). t \<in> set (map alert_type
               (filter (\<lambda>a. created_at a \<ge> now - 7 * 24 * 3600) tbl))) ord"
    and s: "sorted_wrt (\<lambda>r s. snd r \<ge> snd s) ord"
    and r: "res = take 5 ord"
    by blast+
  have sub: "set res \<subseteq> set ord"
    unfolding r by (rule set_take_subset)
  have cs: "set (map ?f ord) = (\<lambda>k. (k, ?n k)) ` ?K"
    using mset_eq_setD [OF m] by (simp only: alert_type_counts_set)
  \<comment> \<open>order\<close>
  have 1: "sorted_wrt (\<lambda>r s. snd r \<ge> snd s) res"
    unfolding r using s by (rule sorted_wrt_take)
  \<comment> \<open>number of rows\<close>
  have "length ord = length (map ?f ord)" by simp
  also have "\<dots> = length (alert_type_counts coll now tbl)"
    using m by (rule mset_eq_length)
  also have "\<dots> = card ?K" by (rule alert_type_counts_length)
  finally have 2: "length res = min 5 (card ?K)"
    unfolding r by (simp add: min.commute)
  \<comment> \<open>each type once\<close>
  have "mset (map fst (map ?f ord)) = mset (map fst (alert_type_counts coll now tbl))"
    using m by (metis mset_map)
  then have d: "distinct (map fst (map ?f ord))"
    using alert_type_counts_distinct [of coll now tbl] mset_eq_imp_distinct_iff by blast
  have e: "map fst (map ?f ord) = map (\<lambda>r. weights coll (fst r)) ord"
    by (simp add: case_prod_unfold)
  have "distinct (map (\<lambda>r. weights coll (fst r)) ord)"
    using d unfolding e .
  then have "distinct (take 5 (map (\<lambda>r. weights coll (fst r)) ord))"
    by (rule distinct_take)
  then have 3: "distinct (map (\<lambda>r. weights coll (fst r)) res)"
    unfolding r by (simp add: take_map)
  \<comment> \<open>the counts\<close>
  have cnt: "c = ?n (weights coll t)" if "(t, c) \<in> set ord" for t c
  proof -
    from that have "?f (t, c) \<in> ?f ` set ord" by (rule imageI)
    then have "?f (t, c) \<in> set (map ?f ord)" by (simp only: set_map)
    then have "(weights coll t, c) \<in> (\<lambda>k. (k, ?n k)) ` ?K" unfolding cs by simp
    then show ?thesis by auto
  qed
  have 4: "\<forall>(t, c) \<in> set res.
             (\<exists>a \<in> set tbl. created_at a \<ge> now - 7 * 24 * 3600 \<and> alert_type a = t)
             \<and> c = ?n (weights coll t)"
  proof (clarify)
    fix t c assume "(t, c) \<in> set res"
    with sub have tc: "(t, c) \<in> set ord" by blast
    with w have "t \<in> set (map alert_type (filter (\<lambda>a. created_at a \<ge> now - 7 * 24 * 3600) tbl))"
      by (auto simp: list_all_iff)
    then have "\<exists>a \<in> set tbl. created_at a \<ge> now - 7 * 24 * 3600 \<and> alert_type a = t"
      by auto
    with cnt [OF tc]
    show "(\<exists>a \<in> set tbl. created_at a \<ge> now - 7 * 24 * 3600 \<and> alert_type a = t)
             \<and> c = ?n (weights coll t)" by (rule conjI [rotated])
  qed
  \<comment> \<open>the listed types are the most frequent\<close>
  have split: "ord = res @ drop 5 ord"
    unfolding r by simp
  have 5: "\<forall>b \<in> set tbl.
             created_at b \<ge> now - 7 * 24 * 3600
             \<and> weights coll (alert_type b) \<notin> (\<lambda>r. weights coll (fst r)) ` set res \<longrightarrow>
             (\<forall>(t, c) \<in> set res. ?n (weights coll (alert_type b)) \<le> c)"
  proof (intro ballI impI, clarify)
    fix b t c
    assume b: "b \<in> set tbl" "created_at b \<ge> now - 7 * 24 * 3600"
      and out: "weights coll (alert_type b) \<notin> (\<lambda>r. weights coll (fst r)) ` set res"
      and tc: "(t, c) \<in> set res"
    from b have "weights coll (alert_type b) \<in> ?K" by blast
    then have "(weights coll (alert_type b), ?n (weights coll (alert_type b))) \<in> set (map ?f ord)"
      unfolding cs by (rule imageI)
    then obtain t' c' where o: "(t', c') \<in> set ord" "weights coll t' = weights coll (alert_type b)"
      "c' = ?n (weights coll (alert_type b))" by auto
    from o(2) out have "(t', c') \<notin> set res" by force
    with o(1) split have "(t', c') \<in> set (drop 5 ord)"
      by (metis Un_iff set_append)
    moreover from s split have "sorted_wrt (\<lambda>r s. snd r \<ge> snd s) (res @ drop 5 ord)" by simp
    ultimately have "snd (t, c) \<ge> snd (t', c')"
      using tc unfolding sorted_wrt_append by blast
    with o(3) show "?n (weights coll (alert_type b)) \<le> c" by simp
  qed
  \<comment> \<open>every order of the same rows that is sorted by count is an answer\<close>
  have 6: "\<forall>ord'. mset ord' = mset ord \<and> sorted_wrt (\<lambda>r s. snd r \<ge> snd s) ord' \<longrightarrow>
             topAlertTypes coll now tbl ord' = Some (take 5 ord')"
  proof (intro allI impI)
    fix ord' assume a: "mset ord' = mset ord \<and> sorted_wrt (\<lambda>r s. snd r \<ge> snd s) ord'"
    then have "mset (map ?f ord') = mset (map ?f ord)" by (metis mset_map)
    with m have m': "mset (map ?f ord') = mset (alert_type_counts coll now tbl)" by simp
    from a have "set ord' = set ord" by (metis mset_eq_setD)
    with w have w': "list_all (\<lambda>(t, c). t \<in> set (map alert_type
               (filter (\<lambda>a. created_at a \<ge> now - 7 * 24 * 3600) tbl))) ord'"
      by (simp only: list_all_iff)
    from m' w' a have "mset (map ?f ord') = mset (alert_type_counts coll now tbl)
         \<and> list_all (\<lambda>(t, c). t \<in> set (map alert_type
               (filter (\<lambda>a. created_at a \<ge> now - 7 * 24 * 3600) tbl))) ord'
         \<and> sorted_wrt (\<lambda>r s. snd r \<ge> snd s) ord'" by blast
    then show "topAlertTypes coll now tbl ord' = Some (take 5 ord')"
      unfolding topAlertTypes_def by (rule if_P)
  qed
  show ?thesis using 1 2 3 4 5 6 by (intro conjI)
qed

lemma topAlertTypes_three:
  "topAlertTypes binary 100000 three_alerts [(''Port Scan'', 2), (''Failed Login'', 1)]
     = Some [(''Port Scan'', 2), (''Failed Login'', 1)]"
  by (simp add: topAlertTypes_def alert_type_counts_def three_alerts_def example_alert_def
      group_by_def weights_def binary_def)

text \<open>
  The three example rows: two port scans and one failed login.
\<close>

theorem topAlertTypes_three_alerts:
  "topAlertTypes binary 100000 three_alerts [(''Port Scan'', 2), (''Failed Login'', 1)]
     = Some [(''Port Scan'', 2), (''Failed Login'', 1)]
   \<and> sorted_wrt (\<lambda>r s. snd r \<ge> snd s) [(''Port Scan'', 2::nat), (''Failed Login'', 1)]
   \<and> length [(''Port Scan'', 2::nat), (''Failed Login'', 1)]
       = min 5 (card ((\<lambda>a. weights binary (alert_type a))
                       ` {a \<in> set three_alerts. created_at a \<ge> 100000 - 7 * 24 * 3600}))
   \<and> (2::nat) = length (filter (\<lambda>a. weights binary (alert_type a) = weights binary ''Port Scan''
                                    \<and> created_at a \<ge> 100000 - 7 * 24 * 3600) three_alerts)"
proof -
  note t = topAlertTypes_ordered_by_count [OF topAlertTypes_three]
  have 1: "sorted_wrt (\<lambda>r s. snd r \<ge> snd s) [(''Port Scan'', 2::nat), (''Failed Login'', 1)]"
    using t [THEN conjunct1] .
  have 2: "length [(''Port Scan'', 2::nat), (''Failed Login'', 1)]
       = min 5 (card ((\<lambda>a. weights binary (alert_type a))
                       ` {a \<in> set three_alerts. created_at a \<ge> 100000 - 7 * 24 * 3600}))"
    using t [THEN conjunct2, THEN conjunct1] .
  have 3: "(2::nat) = length (filter (\<lambda>a. weights binary (alert_type a) = weights binary ''Port Scan''
                                    \<and> created_at a \<ge> 100000 - 7 * 24 * 3600) three_alerts)"
    using t [THEN conjunct2, THEN conjunct2, THEN conjunct2, THEN conjunct1] by simp
  show ?thesis using 1 2 3 topAlertTypes_three by (intro conjI)
qed

text \<open>
  C7 as stated fails. Of two types with one alert each, the answer can list
  \<open>Port Scan\<close> before \<open>Failed Login\<close>, although \<open>Failed Login\<close> is the smaller name;
  it can also list them the other way round.
\<close>

theorem topAlertTypes_tie_counterexample:
  "topAlertTypes binary 100000 two_types [(''Port Scan'', 1), (''Failed Login'', 1)]
     = Some [(''Port Scan'', 1), (''Failed Login'', 1)]
   \<and> topAlertTypes binary 100000 two_types [(''Failed Login'', 1), (''Port Scan'', 1)]
     = Some [(''Failed Login'', 1), (''Port Scan'', 1)]
   \<and> ''Failed Login'' < ''Port Scan''"
  by (simp add: topAlertTypes_def alert_type_counts_def two_types_def example_alert_def
      group_by_def weights_def binary_def)

subsection \<open>Geographic threats\<close>

text \<open>
  C2 fails on the code. For a place with one Critical and one Medium alert the cluster's
  \<open>max_severity\<close> is \<open>Medium\<close>: \<open>MAX\<close> takes the greatest text, and \<open>Medium\<close> is
  also the later member of the \<open>ENUM\<close>, so neither order ranks Critical highest.
\<close>

theorem geographic_max_severity_by_text:
  "map max_severity (geographic 100000 critical_and_medium) = [''Medium'']
   \<and> map alert_count (geographic 100000 critical_and_medium) = [2]
   \<and> map severity critical_and_medium = [Critical, Medium]
   \<and> severity_index Critical < severity_index Medium"
  by (simp add: geographic_def critical_and_medium_def example_alert_def group_by_def
      geo_key_of_def List.map_filter_def)

subsection \<open>\<open>resolved_at\<close>\<close>

lemma fold_insert_resolved_at:
  assumes "\<forall>a \<in> set tbl. resolved_at a = None"
  shows "\<forall>a \<in> set (fold (\<lambda>i t. t @ [sample_alert now t (draws i)]) is tbl). resolved_at a = None"
  using assms
proof (induction "is" arbitrary: tbl)
  case Nil
  then show ?case by simp
next
  case (Cons i "is")
  have h: "\<forall>a \<in> set (tbl @ [sample_alert now tbl (draws i)]). resolved_at a = None"
    using Cons.prems by (simp add: sample_alert_def Let_def)
  show ?case using Cons.IH [OF h] by simp
qed

lemma generate_resolved_at:
  assumes "\<forall>a \<in> set tbl. resolved_at a = None"
  shows "\<forall>a \<in> set (generateSampleSecurityData now draws tbl). resolved_at a = None"
  using assms fold_insert_resolved_at [of tbl now draws "[0..<150]"]
  by (simp add: generateSampleSecurityData_def)

lemma step_resolved_at:
  assumes "\<forall>a \<in> set (db_alerts srv). resolved_at a = None"
  shows "\<forall>a \<in> set (db_alerts (step e srv)). resolved_at a = None"
  using assms
  by (cases e) (simp_all add: simulateRealTimeAlerts_def realtime_alert_def Let_def)

lemma steps_resolved_at:
  assumes "\<forall>a \<in> set (db_alerts srv). resolved_at a = None"
  shows "\<forall>a \<in> set (db_alerts (fold step evs srv)). resolved_at a = None"
  using assms
proof (induction evs arbitrary: srv)
  case Nil
  then show ?case by simp
next
  case (Cons e evs)
  from Cons.prems have h: "\<forall>a \<in> set (db_alerts (step e srv)). resolved_at a = None"
    by (rule step_resolved_at)
  show ?case using Cons.IH [OF h] by simp
qed

text \<open>
  C3, as the code has it. No statement of the server writes \<open>resolved_at\<close>: when the
  column is \<open>NULL\<close> in every row of the table at start-up, it is \<open>NULL\<close> in every
  row after the sample data is generated and after any run of the server. So a row with
  \<open>resolved_at\<close> set has status Resolved; the converse is not kept.
\<close>

theorem resolved_at_never_set:
  "(\<forall>a \<in> set tbl. resolved_at a = None) \<longrightarrow>
   (\<forall>a \<in> set (db_alerts (fold step evs
        \<lparr> db_alerts = generateSampleSecurityData now draws tbl, io = reg \<rparr>)).
      resolved_at a = None \<and> (resolved_at a \<noteq> None \<longrightarrow> status a = Resolved))"
proof
  assume "\<forall>a \<in> set tbl. resolved_at a = None"
  then have "\<forall>a \<in> set (generateSampleSecurityData now draws tbl). resolved_at a = None"
    by (rule generate_resolved_at)
  then have "\<forall>a \<in> set (db_alerts \<lparr> db_alerts = generateSampleSecurityData now draws tbl, io = reg \<rparr>).
      resolved_at a = None" by simp
  then have "\<forall>a \<in> set (db_alerts (fold step evs
       \<lparr> db_alerts = generateSampleSecurityData now draws tbl, io = reg \<rparr>)). resolved_at a = None"
    by (rule steps_resolved_at)
  then show "\<forall>a \<in> set (db_alerts (fold step evs
        \<lparr> db_alerts = generateSampleSecurityData now draws tbl, io = reg \<rparr>)).
      resolved_at a = None \<and> (resolved_at a \<noteq> None \<longrightarrow> status a = Resolved)"
    by simp
qed

lemma fold_insert_hd:
  "tbl \<noteq> [] \<Longrightarrow> hd (fold (\<lambda>i t. t @ [f t i]) is tbl) = hd tbl"
  by (induction "is" arbitrary: tbl) simp_all

lemma generate_first:
  "hd (generateSampleSecurityData now draws []) = sample_alert now [] (draws 0)"
proof -
  have u: "[0..<150] = 0 # [1..<150]" by (simp add: upt_conv_Cons)
  show ?thesis
    unfolding generateSampleSecurityData_def u
    by (simp add: fold_insert_hd)
qed

lemma generate_nonempty: "generateSampleSecurityData now draws [] \<noteq> []"
proof -
  have "length (fold (\<lambda>i t. t @ [f t i]) is tbl) = length tbl + length is" for f :: "alert list \<Rightarrow> nat \<Rightarrow> alert" and "is" tbl
    by (induction "is" arbitrary: tbl) simp_all
  then have "length (generateSampleSecurityData now draws []) = 150"
    by (simp add: generateSampleSecurityData_def)
  then show ?thesis by auto
qed

text \<open>The first generated row of a fresh table.\<close>

theorem resolved_at_first_sample:
  "hd (generateSampleSecurityData 100000 (\<lambda>i. resolved_draw) [])
     \<in> set (db_alerts (fold step []
          \<lparr> db_alerts = generateSampleSecurityData 100000 (\<lambda>i. resolved_draw) [], io = Map.empty \<rparr>))
   \<and> resolved_at (hd (generateSampleSecurityData 100000 (\<lambda>i. resolved_draw) [])) = None"
  using resolved_at_never_set [of "[]" "[]" 100000 "\<lambda>i. resolved_draw" Map.empty]
    generate_nonempty [of 100000 "\<lambda>i. resolved_draw"]
  by simp

text \<open>
  C3 as stated fails: when the random draw picks the status \<open>Resolved\<close>, the generated
  row has status Resolved and no \<open>resolved_at\<close>.
\<close>

theorem resolved_without_resolved_at:
  "generateSampleSecurityData 100000 (\<lambda>i. resolved_draw) [] \<noteq> []
   \<and> status (hd (generateSampleSecurityData 100000 (\<lambda>i. resolved_draw) [])) = Resolved
   \<and> resolved_at (hd (generateSampleSecurityData 100000 (\<lambda>i. resolved_draw) [])) = None
   \<and> \<not> (resolved_at (hd (generateSampleSecurityData 100000 (\<lambda>i. resolved_draw) [])) \<noteq> None
          \<longleftrightarrow> status (hd (generateSampleSecurityData 100000 (\<lambda>i. resolved_draw) [])) = Resolved)"
  unfolding generate_first
  by (simp add: generate_nonempty sample_alert_def Let_def resolved_draw_def pick_def statuses_def)

subsection \<open>Live channel\<close>

lemma fold_max_ge: "x \<le> fold max xs (x::nat)"
  by (induction xs arbitrary: x) (auto intro: order_trans [OF max.cobounded2])

lemma fold_max_mem: "y \<in> set xs \<Longrightarrow> y \<le> fold max xs (x::nat)"
proof (induction xs arbitrary: x)
  case Nil
  then show ?case by simp
next
  case (Cons z zs)
  show ?case
  proof (cases "y = z")
    case True
    have "z \<le> max z x" by simp
    also have "\<dots> \<le> fold max zs (max z x)" by (rule fold_max_ge)
    finally show ?thesis using True by simp
  next
    case False
    with Cons.prems have "y \<in> set zs" by simp
    then show ?thesis using Cons.IH by simp
  qed
qed

lemma next_id_fresh: "a \<in> set tbl \<Longrightarrow> alert_id a < next_id tbl"
proof -
  assume "a \<in> set tbl"
  then have "alert_id a \<in> set (map alert_id tbl)" by simp
  then have "alert_id a \<le> fold max (map alert_id tbl) 0" by (rule fold_max_mem)
  then show ?thesis by (simp add: next_id_def)
qed

lemma realtime_alert_id: "alert_id (realtime_alert now tbl d) = next_id tbl"
  by (simp add: realtime_alert_def Let_def)

lemma no_row_with_next_id: "filter (\<lambda>a. alert_id a = next_id tbl) tbl = []"
proof -
  have "alert_id a \<noteq> next_id tbl" if "a \<in> set tbl" for a
    using next_id_fresh [OF that] by simp
  then show ?thesis by (simp add: filter_empty_conv)
qed

lemma simulate_fire:
  "t_fire d \<Longrightarrow> simulateRealTimeAlerts now d srv =
     \<lparr> db_alerts = db_alerts srv @ [realtime_alert now (db_alerts srv) d],
       io = io_emit ''new-alert'' (Some (realtime_alert now (db_alerts srv) d)) (io srv) \<rparr>"
  by (simp add: simulateRealTimeAlerts_def Let_def realtime_alert_id no_row_with_next_id)

lemma step_delivery:
  assumes "io srv sid = Some s" "e \<noteq> Connection sid" "e \<noteq> Disconnect sid"
  shows "\<exists>s' new. io (step e srv) sid = Some s'
           \<and> db_alerts (step e srv) = db_alerts srv @ new
           \<and> received s' = received s @ map (\<lambda>a. (''new-alert'', Some a)) new
           \<and> length new = (if publishes e then 1 else 0)
           \<and> (\<forall>a \<in> set new. alert_id a = next_id (db_alerts srv))"
proof (cases e)
  case (Connection x)
  with assms show ?thesis by (simp add: connection_def publishes_def)
next
  case (Join_role x role)
  with assms show ?thesis
    by (auto simp: join_role_def publishes_def split: option.splits)
next
  case (Disconnect x)
  with assms show ?thesis by (simp add: disconnect_def publishes_def)
next
  case (Tick now d)
  show ?thesis
  proof (cases "t_fire d")
    case True
    with Tick assms show ?thesis
      by (simp add: simulate_fire io_emit_def publishes_def realtime_alert_id)
  next
    case False
    with Tick assms show ?thesis
      by (simp add: simulateRealTimeAlerts_def publishes_def)
  qed
qed

lemma next_id_append: "next_id tbl \<le> next_id (tbl @ xs)"
  by (simp add: next_id_def fold_max_ge)

text \<open>
  C9. Take a connected socket and any run of events in which it neither disconnects nor
  connects anew. Whatever rooms it is in or joins, the events emitted to it grow by exactly
  the alerts the run inserts, one \<open>new-alert\<close> event per alert, in the order of
  insertion; the inserted alerts have pairwise different ids, and there is one per firing
  run of the handler.
\<close>

theorem new_alert_delivery:
  assumes "io srv sid = Some s"
    and "\<forall>e \<in> set evs. e \<noteq> Connection sid \<and> e \<noteq> Disconnect sid"
  shows "\<exists>s' new. io (fold step evs srv) sid = Some s'
           \<and> db_alerts (fold step evs srv) = db_alerts srv @ new
           \<and> received s' = received s @ map (\<lambda>a. (''new-alert'', Some a)) new
           \<and> length new = length (filter publishes evs)
           \<and> distinct (map alert_id new)
           \<and> (\<forall>a \<in> set new. next_id (db_alerts srv) \<le> alert_id a)"
  using assms
proof (induction evs arbitrary: srv s)
  case Nil
  then show ?case by simp
next
  case (Cons e evs)
  from Cons.prems have e: "e \<noteq> Connection sid" "e \<noteq> Disconnect sid"
    and rest: "\<forall>e \<in> set evs. e \<noteq> Connection sid \<and> e \<noteq> Disconnect sid"
    by simp_all
  from step_delivery [OF Cons.prems(1) e] obtain s1 new1 where
    A: "io (step e srv) sid = Some s1"
       "db_alerts (step e srv) = db_alerts srv @ new1"
       "received s1 = received s @ map (\<lambda>a. (''new-alert'', Some a)) new1"
       "length new1 = (if publishes e then 1 else 0)"
       "\<forall>a \<in> set new1. alert_id a = next_id (db_alerts srv)"
    by blast
  from Cons.IH [OF A(1) rest] obtain s2 new2 where
    B: "io (fold step evs (step e srv)) sid = Some s2"
       "db_alerts (fold step evs (step e srv)) = db_alerts (step e srv) @ new2"
       "received s2 = received s1 @ map (\<lambda>a. (''new-alert'', Some a)) new2"
       "length new2 = length (filter publishes evs)"
       "distinct (map alert_id new2)"
       "\<forall>a \<in> set new2. next_id (db_alerts (step e srv)) \<le> alert_id a"
    by blast
  have d1: "distinct (map alert_id new1)"
    using A(4) by (cases new1) (simp_all split: if_splits)
  have lt: "alert_id a < alert_id b" if "a \<in> set new1" "b \<in> set new2" for a b
  proof -
    from that(1) have "a \<in> set (db_alerts (step e srv))" by (simp add: A(2))
    then have "alert_id a < next_id (db_alerts (step e srv))" by (rule next_id_fresh)
    also have "\<dots> \<le> alert_id b" using B(6) that(2) by simp
    finally show ?thesis .
  qed
  have d: "distinct (map alert_id (new1 @ new2))"
    using d1 B(5) lt by (fastforce simp: distinct_append)
  have ge: "\<forall>a \<in> set (new1 @ new2). next_id (db_alerts srv) \<le> alert_id a"
  proof
    fix a assume "a \<in> set (new1 @ new2)"
    then consider "a \<in> set new1" | "a \<in> set new2" by auto
    then show "next_id (db_alerts srv) \<le> alert_id a"
    proof cases
      case 1
      then show ?thesis using \<open>\<forall>a \<in> set new1. alert_id a = next_id (db_alerts srv)\<close> by simp
    next
      case 2
      have "next_id (db_alerts srv) \<le> next_id (db_alerts (step e srv))"
        unfolding \<open>db_alerts (step e srv) = db_alerts srv @ new1\<close> by (rule next_id_append)
      also have "\<dots> \<le> alert_id a" using B(6) \<open>a \<in> set new2\<close> by simp
      finally show ?thesis .
    qed
  qed
  have "io (fold step (e # evs) srv) sid = Some s2
      \<and> db_alerts (fold step (e # evs) srv) = db_alerts srv @ (new1 @ new2)
      \<and> received s2 = received s @ map (\<lambda>a. (''new-alert'', Some a)) (new1 @ new2)
      \<and> length (new1 @ new2) = length (filter publishes (e # evs))
      \<and> distinct (map alert_id (new1 @ new2))
      \<and> (\<forall>a \<in> set (new1 @ new2). next_id (db_alerts srv) \<le> alert_id a)"
    using A B d ge by simp
  then show ?case by blast
qed

lemma example_run:
  "map_option (\<lambda>s. (rooms s, map (\<lambda>(ev, a). (ev, map_option alert_id a)) (received s)))
     (io (fold step example_events example_server) 2)
   = Some ([''Administrator''], [(''new-alert'', Some 1), (''new-alert'', Some 2)])
   \<and> map_option (\<lambda>s. (rooms s, map (\<lambda>(ev, a). (ev, map_option alert_id a)) (received s)))
     (io (fold step example_events example_server) 1)
   = Some ([''SOC Analyst''], [(''new-alert'', Some 1), (''new-alert'', Some 2)])
   \<and> map_option (\<lambda>s. (rooms s, map (\<lambda>(ev, a). (ev, map_option alert_id a)) (received s)))
     (io (fold step example_events example_server) 3)
   = Some ([], [(''new-alert'', Some 2)])"
  by (simp add: example_events_def example_server_def firing_draw_def connection_def
      join_role_def simulateRealTimeAlerts_def Let_def io_emit_def realtime_alert_def next_id_def)

text \<open>The example run: both sockets receive alerts 1 and 2, in this order.\<close>

theorem new_alert_delivery_example:
  "io example_server 2 = Some \<lparr> rooms = [], received = [] \<rparr>
   \<and> list_all (\<lambda>e. e \<noteq> Connection 2 \<and> e \<noteq> Disconnect 2) example_events
   \<and> length (filter publishes example_events) = 2
   \<and> map_option (\<lambda>s. (rooms s, map (\<lambda>(ev, a). (ev, map_option alert_id a)) (received s)))
        (io (fold step example_events example_server) 2)
      = Some ([''Administrator''], [(''new-alert'', Some 1), (''new-alert'', Some 2)])
   \<and> map_option (\<lambda>s. (rooms s, map (\<lambda>(ev, a). (ev, map_option alert_id a)) (received s)))
        (io (fold step example_events example_server) 1)
      = Some ([''SOC Analyst''], [(''new-alert'', Some 1), (''new-alert'', Some 2)])"
proof -
  have 1: "io example_server 2 = Some \<lparr> rooms = [], received = [] \<rparr>"
    by (simp add: example_server_def connection_def)
  have 2: "\<forall>e \<in> set example_events. e \<noteq> Connection 2 \<and> e \<noteq> Disconnect 2"
    by (simp add: example_events_def)
  have 3: "length (filter publishes example_events) = 2"
    by (simp add: example_events_def publishes_def firing_draw_def)
  show ?thesis
    using new_alert_delivery [OF 1 2] 1 2 3 example_run by (simp add: list_all_iff)
qed

end

